theory Spec2Isabelle
  imports Main
begin

section \<open>Strings and Python truthiness\<close>

text \<open>
  A Python \<open>str\<close> is modelled as a \<open>string\<close>; each \<open>char\<close> stands for one code point
  below 256. \<open>str.lower\<close> maps the upper-case letters of that range (A to Z, and the
  Latin-1 capitals except the multiplication sign) to the letter 32 places later and
  leaves every other code point alone.
\<close>

definition lower_char :: "char \<Rightarrow> char" where
  "lower_char c =
     (let n = (of_char c :: nat)
      in if (65 \<le> n \<and> n \<le> 90) \<or> (192 \<le> n \<and> n \<le> 222 \<and> n \<noteq> 215)
         then char_of (n + 32) else c)"

definition lower :: "string \<Rightarrow> string" where
  "lower s = map lower_char s"

definition startswith :: "string \<Rightarrow> string \<Rightarrow> bool" where
  "startswith s p = (take (length p) s = p)"

text \<open>
  \<open>if data:\<close> and \<open>not code\<close> test Python truthiness: \<open>None\<close>, the empty string
  and the integer 0 are false, everything else is true.
\<close>

definition truthy_str :: "string option \<Rightarrow> bool" where
  "truthy_str d = (case d of None \<Rightarrow> False | Some s \<Rightarrow> s \<noteq> [])"

definition truthy_int :: "int option \<Rightarrow> bool" where
  "truthy_int c = (case c of None \<Rightarrow> False | Some n \<Rightarrow> n \<noteq> 0)"

text \<open>\<open>json.dumps({"error": msg})\<close> for a message of plain letters and spaces.\<close>

definition dumps_error :: "string \<Rightarrow> string" where
  \<open>dumps_error msg = ''{"error": "'' @ msg @ ''"}''\<close>

section \<open>Status codes and the work item\<close>

definition STATUS_CODE_NO_RESULT :: int where "STATUS_CODE_NO_RESULT = 0"
definition STATUS_CODE_NOT_PARSABLE :: int where "STATUS_CODE_NOT_PARSABLE = 1"
definition STATUS_CODE_INVALID_URI :: int where "STATUS_CODE_INVALID_URI = 2"
definition STATUS_CODE_SERVICE_NOT_FOUND :: int where "STATUS_CODE_SERVICE_NOT_FOUND = 3"
definition STATUS_CODE_INVALID_IPFS :: int where "STATUS_CODE_INVALID_IPFS = 4"
definition STATUS_CODE_UNKNOWN_PROTOCOL :: int where "STATUS_CODE_UNKNOWN_PROTOCOL = 5"
definition STATUS_CODE_NO_JSON :: int where "STATUS_CODE_NO_JSON = 1"

lemmas status_code_defs =
  STATUS_CODE_NO_RESULT_def STATUS_CODE_NOT_PARSABLE_def STATUS_CODE_INVALID_URI_def
  STATUS_CODE_SERVICE_NOT_FOUND_def STATUS_CODE_INVALID_IPFS_def
  STATUS_CODE_UNKNOWN_PROTOCOL_def STATUS_CODE_NO_JSON_def

record WorkloadItem =
  contract_hash :: string
  token_id :: string
  token_uri :: string
  response_code :: "int option"
  metadata :: "string option"

definition set_metadata :: "WorkloadItem \<Rightarrow> int option \<Rightarrow> string option \<Rightarrow> WorkloadItem" where
  "set_metadata item code md = item\<lparr>response_code := code, metadata := md\<rparr>"

section \<open>Exceptions and the outside world\<close>

text \<open>
  The exception classes the source names in its handlers; every other exception is
  \<open>OtherException\<close>. None of the four named classes is a subclass of another.
\<close>

datatype exn =
  JSONDecodeError | ContentTypeError | ClientConnectorError | InvalidURL | OtherException

text \<open>
  What a GET gives back: \<open>status\<close> is \<open>response.status\<close>, and \<open>json\<close> is the outcome
  of \<open>json.dumps(await response.json())\<close>, either the exception raised or the
  re-serialised body. The network itself is a parameter: a function from the requested
  URI to the exception raised by \<open>session.get\<close> or to the response.
\<close>

record response =
  status :: int
  json :: "exn + string"

type_synonym transport = "string \<Rightarrow> exn + response"

text \<open>
  The data-URI library is a parameter too: the outcome of
  \<open>datauri.parse(token_uri).data.decode("UTF-8")\<close>, an exception or the decoded text.
\<close>

type_synonym datauri = "string \<Rightarrow> exn + string"

text \<open>What a task does that another part of the system can observe.\<close>

datatype effect =
  Rewrite string
  | Request string
  | Http_get string
  | Sleep nat
  | Get_workload
  | Put WorkloadItem
  | Save_workload "WorkloadItem list"

section \<open>try_get_data\<close>

definition try_get_data :: "datauri \<Rightarrow> string \<Rightarrow> string option" where
  "try_get_data dec uri = (case dec uri of Inr content \<Rightarrow> Some content | Inl e \<Rightarrow> None)"

section \<open>replace_ipfs_gateway\<close>

text \<open>
  The pattern is a slash, then 46 characters of \<open>[a-zA-Z0-9]\<close> or 59 characters of
  \<open>[a-z0-9]\<close>, then a slash or \<open>$\<close>. Outside multi-line mode \<open>$\<close> holds at the end of
  the string and just before a newline that is the last character.
\<close>

definition is_alnum :: "char \<Rightarrow> bool" where
  "is_alnum c =
     (let n = (of_char c :: nat)
      in (97 \<le> n \<and> n \<le> 122) \<or> (65 \<le> n \<and> n \<le> 90) \<or> (48 \<le> n \<and> n \<le> 57))"

definition is_lower_alnum :: "char \<Rightarrow> bool" where
  "is_lower_alnum c =
     (let n = (of_char c :: nat)
      in (97 \<le> n \<and> n \<le> 122) \<or> (48 \<le> n \<and> n \<le> 57))"

definition sep_or_end :: "string \<Rightarrow> bool" where
  "sep_or_end rest =
     (case rest of
        [] \<Rightarrow> True
      | c # cs \<Rightarrow> c = CHR ''/'' \<or> (c = CHR ''\<newline>'' \<and> cs = []))"

definition cid_shape :: "string \<Rightarrow> bool" where
  "cid_shape seg =
     ((length seg = 46 \<and> list_all is_alnum seg) \<or>
      (length seg = 59 \<and> list_all is_lower_alnum seg))"

definition segment_at :: "(char \<Rightarrow> bool) \<Rightarrow> nat \<Rightarrow> string \<Rightarrow> bool" where
  "segment_at cls n s = (n \<le> length s \<and> list_all cls (take n s) \<and> sep_or_end (drop n s))"

text \<open>\<open>match_at s\<close>: the pattern matches at the first character of \<open>s\<close>.\<close>

definition match_at :: "string \<Rightarrow> bool" where
  "match_at s =
     (case s of
        [] \<Rightarrow> False
      | c # rest \<Rightarrow>
          c = CHR ''/'' \<and> (segment_at is_alnum 46 rest \<or> segment_at is_lower_alnum 59 rest))"

text \<open>\<open>re.search\<close> scans the start positions from the left; the result is \<open>found.start()\<close>.\<close>

fun re_search :: "string \<Rightarrow> nat option" where
  "re_search [] = None"
| "re_search (c # cs) =
     (if match_at (c # cs) then Some 0 else map_option Suc (re_search cs))"

definition replace_ipfs_gateway :: "string \<Rightarrow> string \<Rightarrow> string" where
  "replace_ipfs_gateway IPFS_GATEWAY uri =
     (case re_search uri of
        None \<Rightarrow> uri
      | Some start \<Rightarrow> IPFS_GATEWAY @ drop start uri)"

section \<open>request_metadata\<close>

text \<open>
  The handlers of the outer \<open>try\<close>, shared by an exception of \<open>session.get\<close> and one
  that leaves the inner \<open>try\<close> unhandled.
\<close>

definition outer_handler :: "exn \<Rightarrow> int option \<times> string option" where
  "outer_handler e =
     (case e of
        ClientConnectorError \<Rightarrow>
          (Some STATUS_CODE_SERVICE_NOT_FOUND, Some (dumps_error ''service not found''))
      | InvalidURL \<Rightarrow> (Some STATUS_CODE_INVALID_URI, Some (dumps_error ''invalid URI''))
      | _ \<Rightarrow> (None, None))"

definition fetch :: "transport \<Rightarrow> string \<Rightarrow> int option \<times> string option" where
  "fetch get uri =
     (case get uri of
        Inl e \<Rightarrow> outer_handler e
      | Inr resp \<Rightarrow>
          (case json resp of
             Inr body \<Rightarrow> (Some (status resp), Some body)
           | Inl JSONDecodeError \<Rightarrow>
               (Some STATUS_CODE_NOT_PARSABLE, Some (dumps_error ''result is not parsable''))
           | Inl ContentTypeError \<Rightarrow>
               (Some STATUS_CODE_NO_JSON, Some (dumps_error ''result is no json''))
           | Inl e \<Rightarrow> outer_handler e))"

text \<open>The result pair and the GET requests made on the way.\<close>

definition request_metadata ::
  "transport \<Rightarrow> string \<Rightarrow> (int option \<times> string option) \<times> effect list" where
  "request_metadata get uri =
     (if startswith (lower uri) ''ipfs://'' then
        ((Some STATUS_CODE_INVALID_IPFS, Some (dumps_error ''invalid ipfs link'')), [])
      else if startswith (lower uri) ''ar://'' then
        ((Some STATUS_CODE_UNKNOWN_PROTOCOL, Some (dumps_error ''unknown protocol'')), [])
      else (fetch get uri, [Http_get uri]))"

section \<open>worker\<close>

text \<open>
  What one worker does with the item it took from the input queue, up to the call of
  \<open>set_metadata\<close>: the item as it is put on the output queue, and the effects in order.
\<close>

definition resolve ::
  "datauri \<Rightarrow> string \<Rightarrow> transport \<Rightarrow> WorkloadItem \<Rightarrow> WorkloadItem \<times> effect list" where
  "resolve dec IPFS_GATEWAY get item =
     (let data = try_get_data dec (token_uri item)
      in if truthy_str data then (set_metadata item (Some 200) data, [])
         else
           (let uri = replace_ipfs_gateway IPFS_GATEWAY (token_uri item);
                ((code, data), gets) = request_metadata get uri;
                effects = Rewrite (token_uri item) # Request uri # gets
            in if \<not> truthy_int code \<and> \<not> truthy_str data
               then (set_metadata item (Some 0) (Some (dumps_error ''no response'')), effects)
               else (set_metadata item code data, effects)))"

record queues =
  input_queue :: "WorkloadItem list"
  output_queue :: "WorkloadItem list"

text \<open>
  One turn of the worker's loop, run without another task in between: an empty input
  queue means a sleep of one second, otherwise the first item is taken, resolved and
  appended to the output queue.
\<close>

definition worker_iter ::
  "datauri \<Rightarrow> string \<Rightarrow> transport \<Rightarrow> queues \<Rightarrow> queues \<times> effect list" where
  "worker_iter dec IPFS_GATEWAY get q =
     (case input_queue q of
        [] \<Rightarrow> (q, [Sleep 1])
      | item # rest \<Rightarrow>
          (let (item', effects) = resolve dec IPFS_GATEWAY get item
           in (q\<lparr>input_queue := rest, output_queue := output_queue q @ [item']\<rparr>, effects)))"

section \<open>save_workload and save_worker\<close>

text \<open>
  \<open>to_dict\<close> as the tuple of its four values. The sink is a parameter: the exception
  raised by \<open>session.post\<close> or the response, whose \<open>json\<close> field is here the outcome of
  \<open>await response.json()\<close>. \<open>save_workload\<close> returns the exception that leaves it, if any.
\<close>

definition to_dict :: "WorkloadItem \<Rightarrow> string \<times> string \<times> int option \<times> string option" where
  "to_dict item = (contract_hash item, token_id item, response_code item, metadata item)"

type_synonym sink = "(string \<times> string \<times> int option \<times> string option) list \<Rightarrow> exn + response"

definition save_workload :: "sink \<Rightarrow> WorkloadItem list \<Rightarrow> exn option" where
  "save_workload post items =
     (case post (map to_dict items) of
        Inl e \<Rightarrow> Some e
      | Inr resp \<Rightarrow>
          if status resp = 200 then None
          else (case json resp of Inl e \<Rightarrow> Some e | Inr body \<Rightarrow> None))"

text \<open>
  The progress line takes \<open>len(metadata)\<close> and formats the code with \<open>3d\<close>; both raise
  a \<open>TypeError\<close> on \<open>None\<close>. The text of the line is console output and is left out.
\<close>

definition printable :: "WorkloadItem \<Rightarrow> bool" where
  "printable item = (metadata item \<noteq> None \<and> response_code item \<noteq> None)"

text \<open>
  One turn of the batcher's loop. An object of class \<open>WorkloadItem\<close> is always true, so
  \<open>if item:\<close> keeps every item taken from the queue. The result is the queues after the
  turn, the effects in order, and the exception that ends the task, if any.
\<close>

definition save_worker_iter :: "sink \<Rightarrow> queues \<Rightarrow> queues \<times> effect list \<times> exn option" where
  "save_worker_iter post q =
     (let size = min (length (output_queue q)) 100
      in if size = 0 then (q, [Sleep 5], None)
         else
           (let items = take size (output_queue q);
                q' = q\<lparr>output_queue := drop size (output_queue q)\<rparr>
            in if items \<noteq> [] then
                 (if \<not> list_all printable items then (q', [], Some OtherException)
                  else
                    (case save_workload post items of
                       Some e \<Rightarrow> (q', [Save_workload items], Some e)
                     | None \<Rightarrow>
                         (q', Save_workload items # (if size < 100 then [Sleep 5] else []), None)))
               else (q', if size < 100 then [Sleep 5] else [], None)))"

text \<open>
  The loop never ends by itself; \<open>save_worker_run post n q\<close> runs at most \<open>n\<close> turns of
  it with no other task touching the queues, and stops early at an exception.
\<close>

fun save_worker_run :: "sink \<Rightarrow> nat \<Rightarrow> queues \<Rightarrow> queues \<times> effect list \<times> exn option" where
  "save_worker_run post 0 q = (q, [], None)"
| "save_worker_run post (Suc n) q =
     (case save_worker_iter post q of
        (q', es, Some e) \<Rightarrow> (q', es, Some e)
      | (q', es, None) \<Rightarrow>
          (case save_worker_run post n q' of (q'', es', r) \<Rightarrow> (q'', es @ es', r)))"

text \<open>The sizes of the batches handed to the sink, in order.\<close>

fun sink_sizes :: "effect list \<Rightarrow> nat list" where
  "sink_sizes [] = []"
| "sink_sizes (Save_workload items # es) = length items # sink_sizes es"
| "sink_sizes (e # es) = sink_sizes es"

section \<open>get_workload and main\<close>

text \<open>
  The work source is a parameter: the exception raised while the page is requested and
  read, or the entries of \<open>data["tokens"]\<close> as triples of contract hash, token id and
  token URI.
\<close>

definition from_json :: "string \<times> string \<times> string \<Rightarrow> WorkloadItem" where
  "from_json data =
     (case data of (c, t, u) \<Rightarrow>
        \<lparr>contract_hash = c, token_id = t, token_uri = u, response_code = None, metadata = None\<rparr>)"

definition get_workload :: "exn + (string \<times> string \<times> string) list \<Rightarrow> exn + WorkloadItem list" where
  "get_workload src = (case src of Inl e \<Rightarrow> Inl e | Inr tokens \<Rightarrow> Inr (map from_json tokens))"

datatype 'a step = Continue 'a | Return | Raise exn

text \<open>
  The part of a turn of the producer's loop after \<open>get_workload\<close> has answered,
  on the queues as they are at that moment.
\<close>

definition main_after_fetch ::
  "exn + WorkloadItem list \<Rightarrow> queues \<Rightarrow> queues step \<times> effect list" where
  "main_after_fetch page q =
     (case page of
        Inl e \<Rightarrow> (Raise e, [])
      | Inr workload \<Rightarrow>
          if workload = [] \<and> length (output_queue q) = 0 \<and> length (input_queue q) = 0
          then (Return, [])
          else (Continue (q\<lparr>input_queue := input_queue q @ workload\<rparr>),
                (if workload = [] then [Sleep 1] else []) @ map Put workload))"

text \<open>One whole turn, with no other task touching the queues during the request.\<close>

definition main_iter ::
  "exn + (string \<times> string \<times> string) list \<Rightarrow> queues \<Rightarrow> queues step \<times> effect list" where
  "main_iter src q =
     (if length (input_queue q) > 10000 then (Continue q, [Sleep 1])
      else (case main_after_fetch (get_workload src) q of (r, es) \<Rightarrow> (r, Get_workload # es)))"

text \<open>
  The loop over the page on its own, one \<open>put\<close> after the other: the queue at the end
  and, for each \<open>put\<close>, the depth of the queue it finds. There is no check of the depth
  inside the loop.
\<close>

fun enqueue_all :: "WorkloadItem list \<Rightarrow> WorkloadItem list \<Rightarrow> WorkloadItem list \<times> nat list" where
  "enqueue_all iq [] = (iq, [])"
| "enqueue_all iq (item # rest) =
     (case enqueue_all (iq @ [item]) rest of (iq', depths) \<Rightarrow> (iq', length iq # depths))"

section \<open>Module initialisation\<close>

text \<open>
  The environment is a map from variable names to values (\<open>os.getenv\<close>). Python's
  \<open>int\<close> on a string is a parameter, \<open>None\<close> standing for its \<open>ValueError\<close>. The result
  is the exception raised while the module is loaded, or the four globals.
\<close>

datatype startup_error = RuntimeError string | ValueError

record config =
  API_KEY :: "string option"
  API_URI :: "string option"
  IPFS_GATEWAY :: "string option"
  MAX_REQUESTS :: int

definition module_init ::
  "(string \<Rightarrow> int option) \<Rightarrow> (string \<rightharpoonup> string) \<Rightarrow> startup_error + config" where
  "module_init py_int getenv =
     (case (if truthy_str (getenv ''MAX_REQUESTS'')
            then (case getenv ''MAX_REQUESTS'' of Some v \<Rightarrow> py_int v | None \<Rightarrow> None)
            else Some 200) of
        None \<Rightarrow> Inl ValueError
      | Some m \<Rightarrow>
          if \<not> truthy_str (getenv ''API_URI'') then Inl (RuntimeError ''No API_URI set!'')
          else if \<not> truthy_str (getenv ''API_KEY'') then Inl (RuntimeError ''No API_KEY set!'')
          else if \<not> truthy_str (getenv ''IPFS_GATEWAY'')
          then Inl (RuntimeError ''No IPFS_GATEWAY set!'')
          else Inr \<lparr>API_KEY = getenv ''API_KEY'', API_URI = getenv ''API_URI'',
                    IPFS_GATEWAY = getenv ''IPFS_GATEWAY'', MAX_REQUESTS = m\<rparr>)"

section \<open>JSON texts\<close>

text \<open>
  A JSON text is white space, a value and white space again, and a value begins with a
  brace, a bracket, a double quote, a minus sign, a digit, or the first letter of
  \<open>true\<close>, \<open>false\<close> or \<open>null\<close>. \<open>starts_json_value\<close> tests the first character
  after the leading white space only: it holds of every JSON text, so a string of which
  it does not hold is not a JSON text.
\<close>

definition json_ws :: "char \<Rightarrow> bool" where
  "json_ws c = (c \<in> set [CHR '' '', CHR 0x09, CHR ''\<newline>'', CHR 0x0D])"

definition json_value_start :: "char \<Rightarrow> bool" where
  \<open>json_value_start c = (c \<in> set ''{["-0123456789tfn'')\<close>

definition starts_json_value :: "string \<Rightarrow> bool" where
  "starts_json_value s =
     (case dropWhile json_ws s of [] \<Rightarrow> False | c # cs \<Rightarrow> json_value_start c)"

section \<open>Properties of request_metadata\<close>

lemma startswith_schemes_exclusive:
  "startswith s ''ipfs://'' \<Longrightarrow> \<not> startswith s ''ar://''"
  by (cases s) (auto simp: startswith_def)

text \<open>
  C10: the scheme rejection of \<open>request_metadata\<close> does not look at the case of the
  letters. A URI whose lower-cased form starts with \<open>ipfs://\<close> gets code 4 and the
  payload \<open>{"error": "invalid ipfs link"}\<close>; one whose lower-cased form starts with
  \<open>ar://\<close> gets code 5 and \<open>{"error": "unknown protocol"}\<close>. No request is made
  in either case.
\<close>

theorem request_metadata_scheme_case_insensitive:
  \<open>(startswith (lower uri) ''ipfs://'' \<longrightarrow>
      request_metadata get uri = ((Some 4, Some ''{"error": "invalid ipfs link"}''), [])) \<and>
   (startswith (lower uri) ''ar://'' \<longrightarrow>
      request_metadata get uri = ((Some 5, Some ''{"error": "unknown protocol"}''), []))\<close>
  using startswith_schemes_exclusive [of "lower uri"]
  by (auto simp: request_metadata_def status_code_defs dumps_error_def)

theorem request_metadata_scheme_case_insensitive_witness:
  \<open>startswith (lower ''IPFS://Abc'') ''ipfs://'' \<and>
   request_metadata (\<lambda>u. Inl OtherException) ''IPFS://Abc''
     = ((Some 4, Some ''{"error": "invalid ipfs link"}''), []) \<and>
   startswith (lower ''Ar://xyz'') ''ar://'' \<and>
   request_metadata (\<lambda>u. Inl OtherException) ''Ar://xyz''
     = ((Some 5, Some ''{"error": "unknown protocol"}''), [])\<close>
proof -
  have h1: "startswith (lower ''IPFS://Abc'') ''ipfs://''"
    by code_simp
  have h2: "startswith (lower ''Ar://xyz'') ''ar://''"
    by code_simp
  show ?thesis
    using h1 h2
      request_metadata_scheme_case_insensitive [of "''IPFS://Abc''" "\<lambda>u. Inl OtherException"]
      request_metadata_scheme_case_insensitive [of "''Ar://xyz''" "\<lambda>u. Inl OtherException"]
    by simp
qed

text \<open>
  C5: for a URI that passes the scheme check, \<open>request_metadata\<close> maps the outcome of
  the request as follows. A body that parses as JSON gives the HTTP status and the
  re-serialised body; a \<open>JSONDecodeError\<close> gives code 1 and
  \<open>{"error": "result is not parsable"}\<close>; a \<open>ContentTypeError\<close> gives code 1 and
  \<open>{"error": "result is no json"}\<close>; a \<open>ClientConnectorError\<close> gives code 3 and
  \<open>{"error": "service not found"}\<close>; an \<open>InvalidURL\<close> gives code 2 and
  \<open>{"error": "invalid URI"}\<close>.
\<close>

theorem request_metadata_outcomes:
  assumes "\<not> startswith (lower uri) ''ipfs://''" and "\<not> startswith (lower uri) ''ar://''"
  shows \<open>(get uri = Inr resp \<and> json resp = Inr body \<longrightarrow>
            fst (request_metadata get uri) = (Some (status resp), Some body)) \<and>
         (get uri = Inr resp \<and> json resp = Inl JSONDecodeError \<longrightarrow>
            fst (request_metadata get uri)
              = (Some 1, Some ''{"error": "result is not parsable"}'')) \<and>
         (get uri = Inr resp \<and> json resp = Inl ContentTypeError \<longrightarrow>
            fst (request_metadata get uri)
              = (Some 1, Some ''{"error": "result is no json"}'')) \<and>
         (get uri = Inl ClientConnectorError \<longrightarrow>
            fst (request_metadata get uri)
              = (Some 3, Some ''{"error": "service not found"}'')) \<and>
         (get uri = Inl InvalidURL \<longrightarrow>
            fst (request_metadata get uri) = (Some 2, Some ''{"error": "invalid URI"}''))\<close>
  using assms
  by (simp add: request_metadata_def fetch_def outer_handler_def status_code_defs dumps_error_def)

theorem request_metadata_outcomes_witness:
  \<open>\<not> startswith (lower ''http://a.b/m.json'') ''ipfs://'' \<and>
   \<not> startswith (lower ''http://a.b/m.json'') ''ar://'' \<and>
   fst (request_metadata (\<lambda>u. Inr \<lparr>status = 404, json = Inr ''{"a": 1}''\<rparr>) ''http://a.b/m.json'')
     = (Some 404, Some ''{"a": 1}'') \<and>
   fst (request_metadata (\<lambda>u. Inr \<lparr>status = 200, json = Inl JSONDecodeError\<rparr>) ''http://a.b/m.json'')
     = (Some 1, Some ''{"error": "result is not parsable"}'') \<and>
   fst (request_metadata (\<lambda>u. Inr \<lparr>status = 200, json = Inl ContentTypeError\<rparr>) ''http://a.b/m.json'')
     = (Some 1, Some ''{"error": "result is no json"}'') \<and>
   fst (request_metadata (\<lambda>u. Inl ClientConnectorError) ''http://a.b/m.json'')
     = (Some 3, Some ''{"error": "service not found"}'') \<and>
   fst (request_metadata (\<lambda>u. Inl InvalidURL) ''http://a.b/m.json'')
     = (Some 2, Some ''{"error": "invalid URI"}'')\<close>
proof -
  have h1: "\<not> startswith (lower ''http://a.b/m.json'') ''ipfs://''"
    by code_simp
  have h2: "\<not> startswith (lower ''http://a.b/m.json'') ''ar://''"
    by code_simp
  show ?thesis
    using h1 h2
      request_metadata_outcomes [OF h1 h2,
        of \<open>\<lambda>u. Inr \<lparr>status = 404, json = Inr ''{"a": 1}''\<rparr>\<close>
           \<open>\<lparr>status = 404, json = Inr ''{"a": 1}''\<rparr>\<close> \<open>''{"a": 1}''\<close>]
      request_metadata_outcomes [OF h1 h2,
        of "\<lambda>u. Inr \<lparr>status = 200, json = Inl JSONDecodeError\<rparr>"
           "\<lparr>status = 200, json = Inl JSONDecodeError\<rparr>"]
      request_metadata_outcomes [OF h1 h2,
        of "\<lambda>u. Inr \<lparr>status = 200, json = Inl ContentTypeError\<rparr>"
           "\<lparr>status = 200, json = Inl ContentTypeError\<rparr>"]
      request_metadata_outcomes [OF h1 h2, of "\<lambda>u. Inl ClientConnectorError"]
      request_metadata_outcomes [OF h1 h2, of "\<lambda>u. Inl InvalidURL"]
    by simp
qed

section \<open>Properties of the worker\<close>

lemma startswith_lower: "startswith s p \<Longrightarrow> startswith (lower s) (lower p)"
  by (simp add: startswith_def lower_def take_map)

lemma lower_ipfs: "lower ''ipfs://'' = ''ipfs://''"
  by code_simp

lemma lower_ar: "lower ''ar://'' = ''ar://''"
  by code_simp

lemma replace_ipfs_gateway_no_match:
  "re_search uri = None \<Longrightarrow> replace_ipfs_gateway gw uri = uri"
  by (simp add: replace_ipfs_gateway_def)

lemma request_metadata_both_or_neither:
  "fst (request_metadata get uri) = (c, d) \<Longrightarrow> (c = None \<and> d = None) \<or> (c \<noteq> None \<and> d \<noteq> None)"
  by (auto simp: request_metadata_def fetch_def outer_handler_def
           split: if_splits sum.splits exn.splits)

lemma resolve_set:
  "response_code (fst (resolve dec gw get item)) \<noteq> None \<and>
   metadata (fst (resolve dec gw get item)) \<noteq> None"
proof (cases "truthy_str (try_get_data dec (token_uri item))")
  case True
  then show ?thesis
    by (auto simp: resolve_def set_metadata_def truthy_str_def split: option.splits)
next
  case False
  obtain c d es
    where r: "request_metadata get (replace_ipfs_gateway gw (token_uri item)) = ((c, d), es)"
    by (metis prod.exhaust)
  then have "fst (request_metadata get (replace_ipfs_gateway gw (token_uri item))) = (c, d)"
    by simp
  from request_metadata_both_or_neither [OF this] False r show ?thesis
    by (auto simp: resolve_def set_metadata_def truthy_str_def truthy_int_def Let_def)
qed

lemma resolve_no_response:
  assumes "\<not> truthy_str (try_get_data dec (token_uri item))"
    and "fst (request_metadata get (replace_ipfs_gateway gw (token_uri item))) = (None, None)"
  shows \<open>fst (resolve dec gw get item)
          = item\<lparr>response_code := Some 0, metadata := Some ''{"error": "no response"}''\<rparr>\<close>
proof -
  obtain es
    where "request_metadata get (replace_ipfs_gateway gw (token_uri item)) = ((None, None), es)"
    using assms(2) by (metis prod.collapse)
  with assms(1) show ?thesis
    by (simp add: resolve_def set_metadata_def truthy_str_def truthy_int_def dumps_error_def)
qed

lemma worker_iter_output:
  "output_queue (fst (worker_iter dec gw get q))
     = output_queue q @ map (\<lambda>i. fst (resolve dec gw get i)) (take 1 (input_queue q))"
  by (cases "input_queue q") (auto simp: worker_iter_def split: prod.splits)

lemma resolve_rejected_ipfs:
  assumes "\<not> truthy_str (try_get_data dec (token_uri item))"
    and "startswith (lower (replace_ipfs_gateway gw (token_uri item))) ''ipfs://''"
  shows \<open>resolve dec gw get item
           = (item\<lparr>response_code := Some 4, metadata := Some ''{"error": "invalid ipfs link"}''\<rparr>,
              [Rewrite (token_uri item), Request (replace_ipfs_gateway gw (token_uri item))])\<close>
  using assms
  by (simp add: resolve_def request_metadata_def Let_def set_metadata_def truthy_int_def
        truthy_str_def status_code_defs dumps_error_def)

lemma resolve_rejected_ar:
  assumes "\<not> truthy_str (try_get_data dec (token_uri item))"
    and "startswith (lower (replace_ipfs_gateway gw (token_uri item))) ''ar://''"
  shows \<open>resolve dec gw get item
           = (item\<lparr>response_code := Some 5, metadata := Some ''{"error": "unknown protocol"}''\<rparr>,
              [Rewrite (token_uri item), Request (replace_ipfs_gateway gw (token_uri item))])\<close>
  using assms startswith_schemes_exclusive [of "lower (replace_ipfs_gateway gw (token_uri item))"]
  by (auto simp add: resolve_def request_metadata_def Let_def set_metadata_def truthy_int_def
        truthy_str_def status_code_defs dumps_error_def)

lemma resolve_inline:
  "truthy_str (try_get_data dec (token_uri item)) \<Longrightarrow>
     resolve dec gw get item
       = (item\<lparr>response_code := Some 200, metadata := try_get_data dec (token_uri item)\<rparr>, [])"
  by (simp add: resolve_def set_metadata_def)

lemma resolve_remote_payload:
  assumes "\<not> truthy_str (try_get_data dec (token_uri item))"
  shows \<open>metadata (fst (resolve dec gw get item))
            \<in> set [Some ''{"error": "invalid ipfs link"}'', Some ''{"error": "unknown protocol"}'',
                    Some ''{"error": "result is not parsable"}'',
                    Some ''{"error": "result is no json"}'',
                    Some ''{"error": "service not found"}'', Some ''{"error": "invalid URI"}'',
                    Some ''{"error": "no response"}''] \<or>
         (\<exists>resp body. get (replace_ipfs_gateway gw (token_uri item)) = Inr resp \<and>
            json resp = Inr body \<and>
            fst (resolve dec gw get item)
              = item\<lparr>response_code := Some (status resp), metadata := Some body\<rparr>)\<close>
  using assms
  by (auto simp: resolve_def request_metadata_def fetch_def outer_handler_def Let_def
        set_metadata_def truthy_int_def truthy_str_def dumps_error_def status_code_defs
      split: sum.splits exn.splits)

text \<open>
  C4, as the claim states it, fails on the inline path: the payload stored for a data
  URI is the decoded text as it is, and a text such as \<open>hi\<close> is not a JSON document.
\<close>

theorem inline_payload_not_json_counterexample:
  \<open>resolve (\<lambda>u. if u = ''data:text/plain;base64,aGk='' then Inr ''hi'' else Inl OtherException)
     ''https://gw/ipfs'' (\<lambda>u. Inl OtherException)
     \<lparr>contract_hash = ''0xc'', token_id = ''1'', token_uri = ''data:text/plain;base64,aGk='',
      response_code = None, metadata = None\<rparr>
   = (\<lparr>contract_hash = ''0xc'', token_id = ''1'', token_uri = ''data:text/plain;base64,aGk='',
       response_code = Some 200, metadata = Some ''hi''\<rparr>, []) \<and>
   \<not> starts_json_value ''hi''\<close>
  by code_simp

text \<open>
  C4, amended: the item a worker puts on the output queue always has a status code and a
  payload that are set. When \<open>request_metadata\<close> returns the pair \<open>(None, None)\<close>, the
  worker stores code 0 and the payload \<open>{"error": "no response"}\<close> instead. On the
  remote path the payload is one of the seven fixed objects \<open>{"error": ...}\<close>, or
  the re-serialised body of the response (what \<open>json.dumps\<close> returns), stored with the
  status of the response. On the inline path the code is 200 and the payload is the decoded
  text of the data URI as it is, which need not be JSON. One turn of the worker's loop
  appends exactly the resolved first item of the input queue, if there is one, to the
  output queue.
\<close>

theorem worker_never_emits_unset:
  \<open>response_code (fst (resolve dec gw get item)) \<noteq> None \<and>
   metadata (fst (resolve dec gw get item)) \<noteq> None \<and>
   (\<not> truthy_str (try_get_data dec (token_uri item)) \<and>
    fst (request_metadata get (replace_ipfs_gateway gw (token_uri item))) = (None, None) \<longrightarrow>
      fst (resolve dec gw get item)
        = item\<lparr>response_code := Some 0, metadata := Some ''{"error": "no response"}''\<rparr>) \<and>
   output_queue (fst (worker_iter dec gw get q))
     = output_queue q @ map (\<lambda>i. fst (resolve dec gw get i)) (take 1 (input_queue q)) \<and>
   (\<not> truthy_str (try_get_data dec (token_uri item)) \<longrightarrow>
      metadata (fst (resolve dec gw get item))
        \<in> set [Some ''{"error": "invalid ipfs link"}'', Some ''{"error": "unknown protocol"}'',
                Some ''{"error": "result is not parsable"}'',
                Some ''{"error": "result is no json"}'',
                Some ''{"error": "service not found"}'', Some ''{"error": "invalid URI"}'',
                Some ''{"error": "no response"}''] \<or>
      (\<exists>resp body. get (replace_ipfs_gateway gw (token_uri item)) = Inr resp \<and>
         json resp = Inr body \<and>
         fst (resolve dec gw get item)
           = item\<lparr>response_code := Some (status resp), metadata := Some body\<rparr>)) \<and>
   (truthy_str (try_get_data dec (token_uri item)) \<longrightarrow>
      resolve dec gw get item
        = (item\<lparr>response_code := Some 200, metadata := try_get_data dec (token_uri item)\<rparr>, []))\<close>
  using resolve_set [of dec gw get item] resolve_no_response [of dec item get gw]
    worker_iter_output [of dec gw get q] resolve_remote_payload [of dec item gw get]
    resolve_inline [of dec item gw get]
  by blast

theorem worker_never_emits_unset_witness:
  \<open>\<not> truthy_str (try_get_data (\<lambda>u. Inl OtherException) ''http://a.b/m.json'') \<and>
   fst (request_metadata (\<lambda>u. Inl OtherException)
          (replace_ipfs_gateway ''https://gw/ipfs'' ''http://a.b/m.json'')) = (None, None) \<and>
   fst (resolve (\<lambda>u. Inl OtherException) ''https://gw/ipfs'' (\<lambda>u. Inl OtherException)
     \<lparr>contract_hash = ''0xc'', token_id = ''1'', token_uri = ''http://a.b/m.json'',
      response_code = None, metadata = None\<rparr>)
   = \<lparr>contract_hash = ''0xc'', token_id = ''1'', token_uri = ''http://a.b/m.json'',
      response_code = Some 0, metadata = Some ''{"error": "no response"}''\<rparr> \<and>
   truthy_str (try_get_data (\<lambda>u. Inr ''{"a": 1}'') ''data:application/json,{"a": 1}'') \<and>
   resolve (\<lambda>u. Inr ''{"a": 1}'') ''https://gw/ipfs'' (\<lambda>u. Inl OtherException)
     \<lparr>contract_hash = ''0xc'', token_id = ''2'', token_uri = ''data:application/json,{"a": 1}'',
      response_code = None, metadata = None\<rparr>
   = (\<lparr>contract_hash = ''0xc'', token_id = ''2'', token_uri = ''data:application/json,{"a": 1}'',
       response_code = Some 200, metadata = Some ''{"a": 1}''\<rparr>, [])\<close>
  (is "?D \<and> ?N \<and> ?R \<and> ?T \<and> ?I")
proof -
  let ?dec = "(\<lambda>u. Inl OtherException) :: datauri"
  let ?get = "(\<lambda>u. Inl OtherException) :: transport"
  let ?i = "\<lparr>contract_hash = ''0xc'', token_id = ''1'', token_uri = ''http://a.b/m.json'',
      response_code = None, metadata = None\<rparr>"
  let ?dec2 = \<open>(\<lambda>u. Inr ''{"a": 1}'') :: datauri\<close>
  let ?i2 = \<open>\<lparr>contract_hash = ''0xc'', token_id = ''2'',
      token_uri = ''data:application/json,{"a": 1}'', response_code = None, metadata = None\<rparr>\<close>
  have d: "\<not> truthy_str (try_get_data ?dec (token_uri ?i))"
    by (simp add: try_get_data_def truthy_str_def)
  have n: "fst (request_metadata ?get (replace_ipfs_gateway ''https://gw/ipfs'' (token_uri ?i)))
             = (None, None)"
    by code_simp
  have r: ?R
    using worker_never_emits_unset [of ?dec "''https://gw/ipfs''" ?get ?i] d n by simp
  have t: "truthy_str (try_get_data ?dec2 (token_uri ?i2))"
    by (simp add: try_get_data_def truthy_str_def)
  have i: ?I
    using worker_never_emits_unset [of ?dec2 "''https://gw/ipfs''" ?get ?i2] t
    by (simp add: try_get_data_def)
  have ?D using d by simp
  moreover have ?N by code_simp
  moreover have ?T using t by simp
  ultimately show ?thesis using r i by blast
qed

text \<open>
  C2, as the claim states it, fails on an inline data URI whose decoded text is empty:
  \<open>if data:\<close> is false for the empty string, so the worker goes on to the rewrite and
  the request, and the code it stores is the one of the request.
\<close>

theorem inline_data_empty_counterexample:
  \<open>try_get_data (\<lambda>u. if u = ''data:,'' then Inr [] else Inl OtherException) ''data:,'' = Some [] \<and>
   resolve (\<lambda>u. if u = ''data:,'' then Inr [] else Inl OtherException) ''https://gw/ipfs''
     (\<lambda>u. Inl InvalidURL)
     \<lparr>contract_hash = ''0xc'', token_id = ''1'', token_uri = ''data:,'',
      response_code = None, metadata = None\<rparr>
   = (\<lparr>contract_hash = ''0xc'', token_id = ''1'', token_uri = ''data:,'',
       response_code = Some 2, metadata = Some ''{"error": "invalid URI"}''\<rparr>,
      [Rewrite ''data:,'', Request ''data:,'', Http_get ''data:,''])\<close>
  by code_simp

text \<open>
  C2, amended: for every work item whose token URI is an inline data URI that decodes to
  a text that is not empty, the worker stores code 200 and the decoded text, and neither
  the gateway rewrite nor \<open>request_metadata\<close> nor a GET takes place for that item.
\<close>

theorem inline_data_resolved_locally:
  assumes "dec (token_uri item) = Inr text" and "text \<noteq> []"
  shows "resolve dec gw get item
           = (item\<lparr>response_code := Some 200, metadata := Some text\<rparr>, []) \<and>
         worker_iter dec gw get (q\<lparr>input_queue := item # rest\<rparr>)
           = (q\<lparr>input_queue := rest,
                output_queue := output_queue q
                  @ [item\<lparr>response_code := Some 200, metadata := Some text\<rparr>]\<rparr>, [])"
  using assms
  by (simp add: resolve_def worker_iter_def try_get_data_def truthy_str_def set_metadata_def)

theorem inline_data_resolved_locally_witness:
  \<open>(\<lambda>u. if u = ''data:text/plain;base64,aGk='' then Inr ''hi'' else Inl OtherException)
     ''data:text/plain;base64,aGk='' = Inr ''hi'' \<and> ''hi'' \<noteq> [] \<and>
   resolve (\<lambda>u. if u = ''data:text/plain;base64,aGk='' then Inr ''hi'' else Inl OtherException)
     ''https://gw/ipfs'' (\<lambda>u. Inl OtherException)
     \<lparr>contract_hash = ''0xc'', token_id = ''1'', token_uri = ''data:text/plain;base64,aGk='',
      response_code = None, metadata = None\<rparr>
   = (\<lparr>contract_hash = ''0xc'', token_id = ''1'', token_uri = ''data:text/plain;base64,aGk='',
       response_code = Some 200, metadata = Some ''hi''\<rparr>, [])\<close>
proof -
  let ?dec = "(\<lambda>u. if u = ''data:text/plain;base64,aGk='' then Inr ''hi''
                    else Inl OtherException) :: datauri"
  let ?get = "(\<lambda>u. Inl OtherException) :: transport"
  let ?i = "\<lparr>contract_hash = ''0xc'', token_id = ''1'',
      token_uri = ''data:text/plain;base64,aGk='', response_code = None, metadata = None\<rparr>"
  have d: "?dec (token_uri ?i) = Inr ''hi''" by simp
  have t: "''hi'' \<noteq> []" by simp
  show ?thesis
    using inline_data_resolved_locally [of ?dec ?i "''hi''" "''https://gw/ipfs''" ?get, OF d t]
    by simp
qed

text \<open>
  C1, as the claim states it, fails: the worker applies the gateway rewrite first and
  the scheme check afterwards, on the rewritten URI. A URI that starts with \<open>ipfs://\<close>
  and goes on with a 46-character content address is rewritten to the gateway and
  requested; the code stored is the HTTP status, not 4.
\<close>

theorem ipfs_uri_rewritten_counterexample:
  \<open>startswith ''ipfs://QmYwAPJzv5CZsnA625s3Xf2nemtYgPpHdWEz79ojWnPbdG'' ''ipfs://'' \<and>
   resolve (\<lambda>u. Inl OtherException) ''https://gw/ipfs''
     (\<lambda>u. Inr \<lparr>status = 200, json = Inr ''{"name": "x"}''\<rparr>)
     \<lparr>contract_hash = ''0xc'', token_id = ''1'',
      token_uri = ''ipfs://QmYwAPJzv5CZsnA625s3Xf2nemtYgPpHdWEz79ojWnPbdG'',
      response_code = None, metadata = None\<rparr>
   = (\<lparr>contract_hash = ''0xc'', token_id = ''1'',
       token_uri = ''ipfs://QmYwAPJzv5CZsnA625s3Xf2nemtYgPpHdWEz79ojWnPbdG'',
       response_code = Some 200, metadata = Some ''{"name": "x"}''\<rparr>,
      [Rewrite ''ipfs://QmYwAPJzv5CZsnA625s3Xf2nemtYgPpHdWEz79ojWnPbdG'',
       Request ''https://gw/ipfs/QmYwAPJzv5CZsnA625s3Xf2nemtYgPpHdWEz79ojWnPbdG'',
       Http_get ''https://gw/ipfs/QmYwAPJzv5CZsnA625s3Xf2nemtYgPpHdWEz79ojWnPbdG''])\<close>
  by code_simp

lemma resolve_fetched:
  assumes "\<not> truthy_str (try_get_data dec (token_uri item))"
    and "\<not> startswith (lower (replace_ipfs_gateway gw (token_uri item))) ''ipfs://''"
    and "\<not> startswith (lower (replace_ipfs_gateway gw (token_uri item))) ''ar://''"
  shows \<open>resolve dec gw get item
           = (if \<not> truthy_int (fst (fetch get (replace_ipfs_gateway gw (token_uri item)))) \<and>
                 \<not> truthy_str (snd (fetch get (replace_ipfs_gateway gw (token_uri item))))
              then item\<lparr>response_code := Some 0, metadata := Some ''{"error": "no response"}''\<rparr>
              else item\<lparr>response_code := fst (fetch get (replace_ipfs_gateway gw (token_uri item))),
                        metadata := snd (fetch get (replace_ipfs_gateway gw (token_uri item)))\<rparr>,
              [Rewrite (token_uri item), Request (replace_ipfs_gateway gw (token_uri item)),
               Http_get (replace_ipfs_gateway gw (token_uri item))])\<close>
  using assms
  by (cases "fetch get (replace_ipfs_gateway gw (token_uri item))")
     (simp add: resolve_def request_metadata_def Let_def set_metadata_def dumps_error_def)

lemma replace_ipfs_gateway_match:
  "re_search uri = Some i \<Longrightarrow> replace_ipfs_gateway gw uri = gw @ drop i uri"
  by (simp add: replace_ipfs_gateway_def)

text \<open>
  C1, amended: for every work item that is not resolved inline, the worker first applies
  the gateway rewrite and then the scheme check, to the rewritten URI. If the lower-cased
  rewritten URI starts with \<open>ipfs://\<close> the item gets code 4 and the payload
  \<open>{"error": "invalid ipfs link"}\<close>; if it starts with \<open>ar://\<close> the item gets code 5
  and \<open>{"error": "unknown protocol"}\<close>; no GET is made in these two cases. In every
  other case exactly one GET is made, of the rewritten URI, and the item gets the code
  and the payload that \<open>fetch\<close> returns for it, or code 0 and
  \<open>{"error": "no response"}\<close> when \<open>fetch\<close> returns neither. In particular a URI that starts with \<open>ipfs://\<close> or \<open>ar://\<close> and in
  which the pattern of the rewrite finds nothing is rejected with code 4 or 5; a URI in
  which the pattern matches at position \<open>i\<close> is rewritten to the gateway prefix followed
  by the URI from position \<open>i\<close> on, and it is that rewritten URI which is checked and,
  unless it starts with one of the two schemes itself, requested.
\<close>

theorem scheme_check_follows_rewrite:
  assumes "\<not> truthy_str (try_get_data dec (token_uri item))"
  shows \<open>(startswith (lower (replace_ipfs_gateway gw (token_uri item))) ''ipfs://'' \<longrightarrow>
            resolve dec gw get item
              = (item\<lparr>response_code := Some 4,
                      metadata := Some ''{"error": "invalid ipfs link"}''\<rparr>,
                 [Rewrite (token_uri item), Request (replace_ipfs_gateway gw (token_uri item))])) \<and>
         (startswith (lower (replace_ipfs_gateway gw (token_uri item))) ''ar://'' \<longrightarrow>
            resolve dec gw get item
              = (item\<lparr>response_code := Some 5,
                      metadata := Some ''{"error": "unknown protocol"}''\<rparr>,
                 [Rewrite (token_uri item), Request (replace_ipfs_gateway gw (token_uri item))])) \<and>
         (re_search (token_uri item) = None \<and> startswith (token_uri item) ''ipfs://'' \<longrightarrow>
            resolve dec gw get item
              = (item\<lparr>response_code := Some 4,
                      metadata := Some ''{"error": "invalid ipfs link"}''\<rparr>,
                 [Rewrite (token_uri item), Request (token_uri item)])) \<and>
         (re_search (token_uri item) = None \<and> startswith (token_uri item) ''ar://'' \<longrightarrow>
            resolve dec gw get item
              = (item\<lparr>response_code := Some 5,
                      metadata := Some ''{"error": "unknown protocol"}''\<rparr>,
                 [Rewrite (token_uri item), Request (token_uri item)])) \<and>
         (\<not> startswith (lower (replace_ipfs_gateway gw (token_uri item))) ''ipfs://'' \<and>
          \<not> startswith (lower (replace_ipfs_gateway gw (token_uri item))) ''ar://'' \<longrightarrow>
            resolve dec gw get item
              = (if \<not> truthy_int (fst (fetch get (replace_ipfs_gateway gw (token_uri item)))) \<and>
                    \<not> truthy_str (snd (fetch get (replace_ipfs_gateway gw (token_uri item))))
                 then item\<lparr>response_code := Some 0,
                           metadata := Some ''{"error": "no response"}''\<rparr>
                 else item\<lparr>response_code
                             := fst (fetch get (replace_ipfs_gateway gw (token_uri item))),
                           metadata
                             := snd (fetch get (replace_ipfs_gateway gw (token_uri item)))\<rparr>,
                 [Rewrite (token_uri item), Request (replace_ipfs_gateway gw (token_uri item)),
                  Http_get (replace_ipfs_gateway gw (token_uri item))])) \<and>
         (re_search (token_uri item) = Some i \<longrightarrow>
            replace_ipfs_gateway gw (token_uri item) = gw @ drop i (token_uri item))\<close>
proof -
  have ipfs: "startswith (token_uri item) ''ipfs://''
                \<Longrightarrow> startswith (lower (token_uri item)) ''ipfs://''"
    using startswith_lower [of "token_uri item" "''ipfs://''"] lower_ipfs by simp
  have ar: "startswith (token_uri item) ''ar://''
              \<Longrightarrow> startswith (lower (token_uri item)) ''ar://''"
    using startswith_lower [of "token_uri item" "''ar://''"] lower_ar by simp
  have c1: "startswith (lower (replace_ipfs_gateway gw (token_uri item))) ''ipfs://'' \<longrightarrow>
            resolve dec gw get item
              = (item\<lparr>response_code := Some 4,
                      metadata := Some (dumps_error ''invalid ipfs link'')\<rparr>,
                 [Rewrite (token_uri item), Request (replace_ipfs_gateway gw (token_uri item))])"
    using resolve_rejected_ipfs [OF assms, of gw get] by (simp add: dumps_error_def)
  have c2: "startswith (lower (replace_ipfs_gateway gw (token_uri item))) ''ar://'' \<longrightarrow>
            resolve dec gw get item
              = (item\<lparr>response_code := Some 5,
                      metadata := Some (dumps_error ''unknown protocol'')\<rparr>,
                 [Rewrite (token_uri item), Request (replace_ipfs_gateway gw (token_uri item))])"
    using resolve_rejected_ar [OF assms, of gw get] by (simp add: dumps_error_def)
  have c3: "re_search (token_uri item) = None \<and> startswith (token_uri item) ''ipfs://'' \<longrightarrow>
            resolve dec gw get item
              = (item\<lparr>response_code := Some 4,
                      metadata := Some (dumps_error ''invalid ipfs link'')\<rparr>,
                 [Rewrite (token_uri item), Request (token_uri item)])"
    using c1 ipfs replace_ipfs_gateway_no_match [of "token_uri item" gw] by auto
  have c4: "re_search (token_uri item) = None \<and> startswith (token_uri item) ''ar://'' \<longrightarrow>
            resolve dec gw get item
              = (item\<lparr>response_code := Some 5,
                      metadata := Some (dumps_error ''unknown protocol'')\<rparr>,
                 [Rewrite (token_uri item), Request (token_uri item)])"
    using c2 ar replace_ipfs_gateway_no_match [of "token_uri item" gw] by auto
  have c5: "\<not> startswith (lower (replace_ipfs_gateway gw (token_uri item))) ''ipfs://'' \<and>
          \<not> startswith (lower (replace_ipfs_gateway gw (token_uri item))) ''ar://'' \<longrightarrow>
            resolve dec gw get item
              = (if \<not> truthy_int (fst (fetch get (replace_ipfs_gateway gw (token_uri item)))) \<and>
                    \<not> truthy_str (snd (fetch get (replace_ipfs_gateway gw (token_uri item))))
                 then item\<lparr>response_code := Some 0,
                           metadata := Some (dumps_error ''no response'')\<rparr>
                 else item\<lparr>response_code
                             := fst (fetch get (replace_ipfs_gateway gw (token_uri item))),
                           metadata
                             := snd (fetch get (replace_ipfs_gateway gw (token_uri item)))\<rparr>,
                 [Rewrite (token_uri item), Request (replace_ipfs_gateway gw (token_uri item)),
                  Http_get (replace_ipfs_gateway gw (token_uri item))])"
    using resolve_fetched [OF assms, of gw get] by (simp add: dumps_error_def)
  have c6: "re_search (token_uri item) = Some i \<longrightarrow>
            replace_ipfs_gateway gw (token_uri item) = gw @ drop i (token_uri item)"
    using replace_ipfs_gateway_match [of "token_uri item" i gw] by simp
  show ?thesis
    using c1 c2 c3 c4 c5 c6 unfolding dumps_error_def by simp
qed

theorem scheme_check_follows_rewrite_witness:
  \<open>\<not> truthy_str (try_get_data (\<lambda>u. Inl OtherException) ''ipfs://folder/1.json'') \<and>
   re_search ''ipfs://folder/1.json'' = None \<and>
   startswith ''ipfs://folder/1.json'' ''ipfs://'' \<and>
   resolve (\<lambda>u. Inl OtherException) ''https://gw/ipfs'' (\<lambda>u. Inl OtherException)
     \<lparr>contract_hash = ''0xc'', token_id = ''1'', token_uri = ''ipfs://folder/1.json'',
      response_code = None, metadata = None\<rparr>
   = (\<lparr>contract_hash = ''0xc'', token_id = ''1'', token_uri = ''ipfs://folder/1.json'',
       response_code = Some 4, metadata = Some ''{"error": "invalid ipfs link"}''\<rparr>,
      [Rewrite ''ipfs://folder/1.json'', Request ''ipfs://folder/1.json'']) \<and>
   \<not> truthy_str (try_get_data (\<lambda>u. Inl OtherException) ''ar://abc'') \<and>
   re_search ''ar://abc'' = None \<and>
   startswith ''ar://abc'' ''ar://'' \<and>
   resolve (\<lambda>u. Inl OtherException) ''https://gw/ipfs'' (\<lambda>u. Inl OtherException)
     \<lparr>contract_hash = ''0xc'', token_id = ''2'', token_uri = ''ar://abc'',
      response_code = None, metadata = None\<rparr>
   = (\<lparr>contract_hash = ''0xc'', token_id = ''2'', token_uri = ''ar://abc'',
       response_code = Some 5, metadata = Some ''{"error": "unknown protocol"}''\<rparr>,
      [Rewrite ''ar://abc'', Request ''ar://abc'']) \<and>
   re_search ''ipfs://QmYwAPJzv5CZsnA625s3Xf2nemtYgPpHdWEz79ojWnPbdG'' = Some 6 \<and>
   replace_ipfs_gateway ''https://gw/ipfs'' ''ipfs://QmYwAPJzv5CZsnA625s3Xf2nemtYgPpHdWEz79ojWnPbdG''
   = ''https://gw/ipfs/QmYwAPJzv5CZsnA625s3Xf2nemtYgPpHdWEz79ojWnPbdG'' \<and>
   \<not> startswith (lower ''https://gw/ipfs/QmYwAPJzv5CZsnA625s3Xf2nemtYgPpHdWEz79ojWnPbdG'') ''ipfs://'' \<and>
   \<not> startswith (lower ''https://gw/ipfs/QmYwAPJzv5CZsnA625s3Xf2nemtYgPpHdWEz79ojWnPbdG'') ''ar://'' \<and>
   resolve (\<lambda>u. Inl OtherException) ''https://gw/ipfs''
     (\<lambda>u. Inr \<lparr>status = 404, json = Inr ''{"message": "not found"}''\<rparr>)
     \<lparr>contract_hash = ''0xc'', token_id = ''3'',
      token_uri = ''ipfs://QmYwAPJzv5CZsnA625s3Xf2nemtYgPpHdWEz79ojWnPbdG'',
      response_code = None, metadata = None\<rparr>
   = (\<lparr>contract_hash = ''0xc'', token_id = ''3'',
       token_uri = ''ipfs://QmYwAPJzv5CZsnA625s3Xf2nemtYgPpHdWEz79ojWnPbdG'',
       response_code = Some 404, metadata = Some ''{"message": "not found"}''\<rparr>,
      [Rewrite ''ipfs://QmYwAPJzv5CZsnA625s3Xf2nemtYgPpHdWEz79ojWnPbdG'',
       Request ''https://gw/ipfs/QmYwAPJzv5CZsnA625s3Xf2nemtYgPpHdWEz79ojWnPbdG'',
       Http_get ''https://gw/ipfs/QmYwAPJzv5CZsnA625s3Xf2nemtYgPpHdWEz79ojWnPbdG''])\<close>
  (is "?D1 \<and> ?S1 \<and> ?P1 \<and> ?R1 \<and> ?D2 \<and> ?S2 \<and> ?P2 \<and> ?R2 \<and> ?S3 \<and> ?W3 \<and> ?N3 \<and> ?M3 \<and> ?R3")
proof -
  let ?dec = "(\<lambda>u. Inl OtherException) :: datauri"
  let ?get = "(\<lambda>u. Inl OtherException) :: transport"
  let ?get3 = \<open>(\<lambda>u. Inr \<lparr>status = 404, json = Inr ''{"message": "not found"}''\<rparr>) :: transport\<close>
  let ?gw = "''https://gw/ipfs''"
  let ?i1 = "\<lparr>contract_hash = ''0xc'', token_id = ''1'', token_uri = ''ipfs://folder/1.json'',
      response_code = None, metadata = None\<rparr>"
  let ?i2 = "\<lparr>contract_hash = ''0xc'', token_id = ''2'', token_uri = ''ar://abc'',
      response_code = None, metadata = None\<rparr>"
  let ?i3 = "\<lparr>contract_hash = ''0xc'', token_id = ''3'',
      token_uri = ''ipfs://QmYwAPJzv5CZsnA625s3Xf2nemtYgPpHdWEz79ojWnPbdG'',
      response_code = None, metadata = None\<rparr>"
  let ?u3 = "''https://gw/ipfs/QmYwAPJzv5CZsnA625s3Xf2nemtYgPpHdWEz79ojWnPbdG''"
  have d1: "\<not> truthy_str (try_get_data ?dec (token_uri ?i1))"
    by (simp add: try_get_data_def truthy_str_def)
  have d2: "\<not> truthy_str (try_get_data ?dec (token_uri ?i2))"
    by (simp add: try_get_data_def truthy_str_def)
  have d3: "\<not> truthy_str (try_get_data ?dec (token_uri ?i3))"
    by (simp add: try_get_data_def truthy_str_def)
  have s1: "re_search (token_uri ?i1) = None" by code_simp
  have s2: "re_search (token_uri ?i2) = None" by code_simp
  have s3: "re_search (token_uri ?i3) = Some 6" by code_simp
  have p1: "startswith (token_uri ?i1) ''ipfs://''" by code_simp
  have p2: "startswith (token_uri ?i2) ''ar://''" by code_simp
  have r1: ?R1
    using scheme_check_follows_rewrite [OF d1, of ?gw ?get] s1 p1 by simp
  have r2: ?R2
    using scheme_check_follows_rewrite [OF d2, of ?gw ?get] s2 p2 by simp
  have w3: "replace_ipfs_gateway ?gw (token_uri ?i3) = ?u3"
    using scheme_check_follows_rewrite [OF d3, of ?gw ?get3 6] s3 by simp
  have n3: "\<not> startswith (lower ?u3) ''ipfs://''" by code_simp
  have m3: "\<not> startswith (lower ?u3) ''ar://''" by code_simp
  have f3: \<open>fetch ?get3 ?u3 = (Some 404, Some ''{"message": "not found"}'')\<close>
    by (simp add: fetch_def)
  have r3: ?R3
    using scheme_check_follows_rewrite [OF d3, of ?gw ?get3 6] n3 m3
    unfolding w3 f3 by (simp add: truthy_int_def)
  have ?D1 and ?D2 using d1 d2 by simp_all
  moreover have ?S1 and ?S2 by code_simp+
  moreover have ?P1 and ?P2 by code_simp+
  moreover have ?S3 using s3 by simp
  moreover have ?W3 using w3 by simp
  ultimately show ?thesis using r1 r2 r3 n3 m3 by blast
qed

section \<open>Properties of the producer\<close>

lemma enqueue_all_queue: "fst (enqueue_all iq workload) = iq @ workload"
proof (induction workload arbitrary: iq)
  case Nil
  show ?case by simp
next
  case (Cons item rest)
  have "fst (enqueue_all iq (item # rest)) = fst (enqueue_all (iq @ [item]) rest)"
    by (simp split: prod.splits)
  with Cons.IH [of "iq @ [item]"] show ?case by simp
qed

lemma enqueue_all_depths:
  "snd (enqueue_all iq workload) = map (\<lambda>k. length iq + k) [0..<length workload]"
proof (induction workload arbitrary: iq)
  case Nil
  show ?case by simp
next
  case (Cons item rest)
  have "snd (enqueue_all iq (item # rest)) = length iq # snd (enqueue_all (iq @ [item]) rest)"
    by (simp split: prod.splits)
  also have "\<dots> = length iq # map (\<lambda>k. length iq + Suc k) [0..<length rest]"
    using Cons.IH [of "iq @ [item]"] by simp
  also have "\<dots> = map (\<lambda>k. length iq + k) [0..<length (item # rest)]"
    by (simp add: map_upt_Suc del: upt_Suc)
  finally show ?case .
qed

lemma main_iter_gated:
  "length (input_queue q) > 10000 \<Longrightarrow> main_iter src q = (Continue q, [Sleep 1])"
  by (simp add: main_iter_def)

lemma main_iter_asks:
  "length (input_queue q) \<le> 10000 \<Longrightarrow> \<exists>r es. main_iter src q = (r, Get_workload # es)"
  by (auto simp: main_iter_def split: prod.splits)

lemma main_iter_page:
  assumes "length (input_queue q) \<le> 10000" and "get_workload src = Inr workload"
    and "workload \<noteq> []"
  shows "main_iter src q
           = (Continue (q\<lparr>input_queue := fst (enqueue_all (input_queue q) workload)\<rparr>),
              Get_workload # map Put workload)"
  using assms by (simp add: main_iter_def main_after_fetch_def enqueue_all_queue)

text \<open>
  C7, as the claim states it, fails: the depth is tested once, at the start of a turn,
  and the page is then put on the queue whole. With 10,000 items on the queue and a page
  of two, the turn puts both; the second \<open>put\<close> finds 10,001 items on the queue.
\<close>

theorem page_put_above_mark_counterexample:
  "length (input_queue \<lparr>input_queue = replicate 10000 (from_json (''0xc'', ''1'', ''http://a.b/1'')),
                          output_queue = []\<rparr>) = 10000 \<and>
   main_iter (Inr [(''0xc'', ''2'', ''http://a.b/2''), (''0xc'', ''3'', ''http://a.b/3'')])
     \<lparr>input_queue = replicate 10000 (from_json (''0xc'', ''1'', ''http://a.b/1'')),
      output_queue = []\<rparr>
   = (Continue \<lparr>input_queue = replicate 10000 (from_json (''0xc'', ''1'', ''http://a.b/1''))
                   @ [from_json (''0xc'', ''2'', ''http://a.b/2''),
                      from_json (''0xc'', ''3'', ''http://a.b/3'')],
                output_queue = []\<rparr>,
      [Get_workload, Put (from_json (''0xc'', ''2'', ''http://a.b/2'')),
       Put (from_json (''0xc'', ''3'', ''http://a.b/3''))]) \<and>
   snd (enqueue_all (replicate 10000 (from_json (''0xc'', ''1'', ''http://a.b/1'')))
          [from_json (''0xc'', ''2'', ''http://a.b/2''), from_json (''0xc'', ''3'', ''http://a.b/3'')])
   = [10000, 10001]"
  by (simp add: main_iter_def main_after_fetch_def get_workload_def enqueue_all_depths
        upt_rec [of 0] upt_rec [of 1] upt_rec [of 2])

text \<open>
  C7, amended: the producer never starts to fetch or to enqueue while the input queue
  holds more than 10,000 items. A turn of its loop that finds the depth above 10,000
  sleeps one second and goes back to the check: it asks the source for nothing, puts
  nothing on the queue and leaves both queues as they are. A turn that finds the depth
  at or below 10,000 asks the source at once, before any sleep, and puts a page that is
  not empty on the queue whole, with no further check of the depth: item number \<open>k\<close> of
  the page, counted from 0, is put at depth \<open>d + k\<close>, where \<open>d\<close> is the depth before
  the first \<open>put\<close>, so the depth can pass 10,000 while the page is put.
\<close>

theorem main_backpressure:
  "(length (input_queue q) > 10000 \<longrightarrow> main_iter src q = (Continue q, [Sleep 1])) \<and>
   (length (input_queue q) \<le> 10000 \<longrightarrow>
      (\<exists>r es. main_iter src q = (r, Get_workload # es))) \<and>
   (length (input_queue q) \<le> 10000 \<and> get_workload src = Inr workload \<and> workload \<noteq> [] \<longrightarrow>
      main_iter src q
        = (Continue (q\<lparr>input_queue := fst (enqueue_all (input_queue q) workload)\<rparr>),
           Get_workload # map Put workload)) \<and>
   fst (enqueue_all iq page) = iq @ page \<and>
   snd (enqueue_all iq page) = map (\<lambda>k. length iq + k) [0..<length page]"
  using main_iter_gated [of q src] main_iter_asks [of q src] main_iter_page [of q src workload]
    enqueue_all_queue [of iq page] enqueue_all_depths [of iq page]
  by blast

theorem main_backpressure_witness:
  "length (input_queue \<lparr>input_queue = replicate 10001 (from_json (''0xc'', ''1'', ''http://a.b/1'')),
                          output_queue = []\<rparr>) > 10000 \<and>
   main_iter (Inr [(''0xc'', ''2'', ''http://a.b/2'')])
     \<lparr>input_queue = replicate 10001 (from_json (''0xc'', ''1'', ''http://a.b/1'')),
      output_queue = []\<rparr>
   = (Continue \<lparr>input_queue = replicate 10001 (from_json (''0xc'', ''1'', ''http://a.b/1'')),
                output_queue = []\<rparr>, [Sleep 1]) \<and>
   length (input_queue \<lparr>input_queue = replicate 10000 (from_json (''0xc'', ''1'', ''http://a.b/1'')),
                          output_queue = []\<rparr>) \<le> 10000 \<and>
   get_workload (Inr [(''0xc'', ''2'', ''http://a.b/2'')])
     = Inr [from_json (''0xc'', ''2'', ''http://a.b/2'')] \<and>
   [from_json (''0xc'', ''2'', ''http://a.b/2'')] \<noteq> [] \<and>
   main_iter (Inr [(''0xc'', ''2'', ''http://a.b/2'')])
     \<lparr>input_queue = replicate 10000 (from_json (''0xc'', ''1'', ''http://a.b/1'')),
      output_queue = []\<rparr>
   = (Continue \<lparr>input_queue = replicate 10000 (from_json (''0xc'', ''1'', ''http://a.b/1''))
                   @ [from_json (''0xc'', ''2'', ''http://a.b/2'')],
                output_queue = []\<rparr>,
      [Get_workload, Put (from_json (''0xc'', ''2'', ''http://a.b/2''))])"
proof -
  let ?item = "from_json (''0xc'', ''1'', ''http://a.b/1'')"
  let ?new = "from_json (''0xc'', ''2'', ''http://a.b/2'')"
  let ?src = "Inr [(''0xc'', ''2'', ''http://a.b/2'')] :: exn + (string \<times> string \<times> string) list"
  let ?q1 = "\<lparr>input_queue = replicate 10001 ?item, output_queue = []\<rparr>"
  let ?q2 = "\<lparr>input_queue = replicate 10000 ?item, output_queue = []\<rparr>"
  have h1: "length (input_queue ?q1) > 10000" by simp
  have h2: "length (input_queue ?q2) \<le> 10000" by simp
  have g: "get_workload ?src = Inr [?new]" by (simp add: get_workload_def)
  have n: "[?new] \<noteq> []" by simp
  have r1: "main_iter ?src ?q1 = (Continue ?q1, [Sleep 1])"
    using main_backpressure [of ?q1 ?src] h1 by blast
  have "main_iter ?src ?q2
          = (Continue (?q2\<lparr>input_queue := fst (enqueue_all (input_queue ?q2) [?new])\<rparr>),
             Get_workload # map Put [?new])"
    using main_backpressure [of ?q2 ?src "[?new]"] h2 g n by blast
  moreover have "fst (enqueue_all (input_queue ?q2) [?new]) = input_queue ?q2 @ [?new]"
    using main_backpressure [of ?q2 ?src "[?new]" "input_queue ?q2" "[?new]"] by blast
  ultimately have r2: "main_iter ?src ?q2
          = (Continue \<lparr>input_queue = replicate 10000 ?item @ [?new], output_queue = []\<rparr>,
             [Get_workload, Put ?new])"
    by simp
  show ?thesis using h1 h2 g n r1 r2 by blast
qed

text \<open>
  C8: a turn of the producer's loop returns, and with it \<open>main\<close> and the run of the event
  loop, exactly when the source answers with an empty page and both queues are empty.
  When the page is empty and one of the queues is not, the turn does not return: it
  leaves the queues as they are and ends with a sleep of one second before the next
  check.
\<close>

theorem main_halts_iff:
  "((fst (main_iter src q) = Return)
      = (get_workload src = Inr [] \<and> input_queue q = [] \<and> output_queue q = [])) \<and>
   ((fst (main_after_fetch page q) = Return)
      = (page = Inr [] \<and> input_queue q = [] \<and> output_queue q = [])) \<and>
   (get_workload src = Inr [] \<and> (input_queue q \<noteq> [] \<or> output_queue q \<noteq> []) \<longrightarrow>
      fst (main_iter src q) = Continue q \<and> last (snd (main_iter src q)) = Sleep 1)"
  by (auto simp: main_iter_def main_after_fetch_def split: prod.splits sum.splits if_splits)

theorem main_halts_iff_witness:
  "get_workload (Inr []) = Inr [] \<and>
   main_iter (Inr []) \<lparr>input_queue = [], output_queue = []\<rparr> = (Return, [Get_workload]) \<and>
   output_queue \<lparr>input_queue = [], output_queue = [from_json (''0xc'', ''1'', ''http://a.b/1'')]\<rparr> \<noteq> [] \<and>
   main_iter (Inr []) \<lparr>input_queue = [], output_queue = [from_json (''0xc'', ''1'', ''http://a.b/1'')]\<rparr>
     = (Continue \<lparr>input_queue = [], output_queue = [from_json (''0xc'', ''1'', ''http://a.b/1'')]\<rparr>,
        [Get_workload, Sleep 1])"
proof -
  let ?src = "Inr [] :: exn + (string \<times> string \<times> string) list"
  let ?q0 = "\<lparr>input_queue = [], output_queue = []\<rparr>"
  let ?q1 = "\<lparr>input_queue = [], output_queue = [from_json (''0xc'', ''1'', ''http://a.b/1'')]\<rparr>"
  have g: "get_workload ?src = Inr []" by (simp add: get_workload_def)
  have n: "input_queue ?q1 \<noteq> [] \<or> output_queue ?q1 \<noteq> []" by simp
  have r0: "fst (main_iter ?src ?q0) = Return"
    using main_halts_iff [of ?src ?q0] g by simp
  have r1: "fst (main_iter ?src ?q1) = Continue ?q1 \<and> last (snd (main_iter ?src ?q1)) = Sleep 1"
    using main_halts_iff [of ?src ?q1] g n by blast
  have e0: "main_iter ?src ?q0 = (Return, [Get_workload])"
    using r0 by (simp add: main_iter_def main_after_fetch_def get_workload_def)
  have e1: "main_iter ?src ?q1 = (Continue ?q1, [Get_workload, Sleep 1])"
    using r1 by (simp add: main_iter_def main_after_fetch_def get_workload_def)
  have m: "output_queue ?q1 \<noteq> []" by simp
  show ?thesis using g m e0 e1 by blast
qed

section \<open>Properties of the module initialisation\<close>

text \<open>
  C9, as the claim states it, fails: with the three other values set and
  \<open>MAX_REQUESTS\<close> absent, loading the module raises nothing and the value is 200.
\<close>

theorem max_requests_optional_counterexample:
  "module_init (\<lambda>v. None)
     [''API_KEY'' \<mapsto> ''k'', ''API_URI'' \<mapsto> ''https://api'', ''IPFS_GATEWAY'' \<mapsto> ''https://gw/ipfs'']
   = Inr \<lparr>API_KEY = Some ''k'', API_URI = Some ''https://api'',
          IPFS_GATEWAY = Some ''https://gw/ipfs'', MAX_REQUESTS = 200\<rparr>"
  by (simp add: module_init_def truthy_str_def)

text \<open>
  C9, amended: the API base URI, the API key and the gateway prefix are mandatory. When
  one of them is absent or empty, loading the module raises an exception, before the
  pipeline runs. The maximum of parallel requests is optional: when it is absent or
  empty and the three others are set, loading the module succeeds with the value 200.
\<close>

theorem module_init_mandatory:
  "((\<not> truthy_str (getenv ''API_URI'') \<or> \<not> truthy_str (getenv ''API_KEY'') \<or>
     \<not> truthy_str (getenv ''IPFS_GATEWAY'')) \<longrightarrow> (\<exists>e. module_init py_int getenv = Inl e)) \<and>
   (truthy_str (getenv ''API_URI'') \<and> truthy_str (getenv ''API_KEY'') \<and>
    truthy_str (getenv ''IPFS_GATEWAY'') \<and> \<not> truthy_str (getenv ''MAX_REQUESTS'') \<longrightarrow>
      module_init py_int getenv
        = Inr \<lparr>API_KEY = getenv ''API_KEY'', API_URI = getenv ''API_URI'',
               IPFS_GATEWAY = getenv ''IPFS_GATEWAY'', MAX_REQUESTS = 200\<rparr>)"
  by (auto simp: module_init_def split: option.splits)

theorem module_init_mandatory_witness:
  "\<not> truthy_str ([''API_KEY'' \<mapsto> ''k'', ''API_URI'' \<mapsto> ''https://api''] ''IPFS_GATEWAY'') \<and>
   (\<exists>e. module_init (\<lambda>v. None) [''API_KEY'' \<mapsto> ''k'', ''API_URI'' \<mapsto> ''https://api''] = Inl e) \<and>
   truthy_str ([''API_KEY'' \<mapsto> ''k'', ''API_URI'' \<mapsto> ''https://api'',
                ''IPFS_GATEWAY'' \<mapsto> ''https://gw/ipfs''] ''API_URI'') \<and>
   truthy_str ([''API_KEY'' \<mapsto> ''k'', ''API_URI'' \<mapsto> ''https://api'',
                ''IPFS_GATEWAY'' \<mapsto> ''https://gw/ipfs''] ''API_KEY'') \<and>
   truthy_str ([''API_KEY'' \<mapsto> ''k'', ''API_URI'' \<mapsto> ''https://api'',
                ''IPFS_GATEWAY'' \<mapsto> ''https://gw/ipfs''] ''IPFS_GATEWAY'') \<and>
   \<not> truthy_str ([''API_KEY'' \<mapsto> ''k'', ''API_URI'' \<mapsto> ''https://api'',
                  ''IPFS_GATEWAY'' \<mapsto> ''https://gw/ipfs''] ''MAX_REQUESTS'') \<and>
   (\<exists>c. module_init (\<lambda>v. None) [''API_KEY'' \<mapsto> ''k'', ''API_URI'' \<mapsto> ''https://api'',
                                 ''IPFS_GATEWAY'' \<mapsto> ''https://gw/ipfs''] = Inr c
         \<and> MAX_REQUESTS c = 200)"
proof -
  let ?e1 = "[''API_KEY'' \<mapsto> ''k'', ''API_URI'' \<mapsto> ''https://api''] :: string \<rightharpoonup> string"
  let ?e2 = "[''API_KEY'' \<mapsto> ''k'', ''API_URI'' \<mapsto> ''https://api'',
              ''IPFS_GATEWAY'' \<mapsto> ''https://gw/ipfs''] :: string \<rightharpoonup> string"
  have a: "\<not> truthy_str (?e1 ''IPFS_GATEWAY'')" by (simp add: truthy_str_def)
  have b: "truthy_str (?e2 ''API_URI'')" by (simp add: truthy_str_def)
  have c: "truthy_str (?e2 ''API_KEY'')" by (simp add: truthy_str_def)
  have d: "truthy_str (?e2 ''IPFS_GATEWAY'')" by (simp add: truthy_str_def)
  have e: "\<not> truthy_str (?e2 ''MAX_REQUESTS'')" by (simp add: truthy_str_def)
  have r1: "\<exists>e. module_init (\<lambda>v. None) ?e1 = Inl e"
    using module_init_mandatory [of ?e1 "\<lambda>v. None"] a by blast
  have "module_init (\<lambda>v. None) ?e2
          = Inr \<lparr>API_KEY = ?e2 ''API_KEY'', API_URI = ?e2 ''API_URI'',
                 IPFS_GATEWAY = ?e2 ''IPFS_GATEWAY'', MAX_REQUESTS = 200\<rparr>"
    using module_init_mandatory [of ?e2 "\<lambda>v. None"] b c d e by blast
  then have r2: "\<exists>c. module_init (\<lambda>v. None) ?e2 = Inr c \<and> MAX_REQUESTS c = 200"
    by simp
  show ?thesis using a b c d e r1 r2 by blast
qed

section \<open>Properties of the batcher\<close>

lemma sink_sizes_append: "sink_sizes (es @ fs) = sink_sizes es @ sink_sizes fs"
  by (induction es rule: sink_sizes.induct) simp_all

lemma save_worker_iter_queue:
  "output_queue (fst (save_worker_iter post q))
     = drop (min (length (output_queue q)) 100) (output_queue q)"
  by (auto simp: save_worker_iter_def Let_def split: option.splits)

lemma save_worker_iter_sizes:
  "sink_sizes (fst (snd (save_worker_iter post q))) = [] \<or>
   sink_sizes (fst (snd (save_worker_iter post q))) = [min (length (output_queue q)) 100]"
  by (auto simp: save_worker_iter_def Let_def split: option.splits)

lemma save_worker_iter_ok:
  assumes "\<forall>items. save_workload post items = None"
    and "list_all printable (output_queue q)"
    and "output_queue q \<noteq> []"
  shows "sink_sizes (fst (snd (save_worker_iter post q))) = [min (length (output_queue q)) 100] \<and>
         snd (snd (save_worker_iter post q)) = None"
proof -
  have "list_all printable (take (min (length (output_queue q)) 100) (output_queue q))"
    using assms(2) by (auto simp: list_all_iff dest: in_set_takeD)
  with assms show ?thesis
    by (auto simp: save_worker_iter_def Let_def)
qed

lemma save_worker_iter_idle:
  "output_queue q = [] \<Longrightarrow> save_worker_iter post q = (q, [Sleep 5], None)"
  by (simp add: save_worker_iter_def)

lemma save_worker_run_idle:
  "output_queue q = [] \<Longrightarrow> sink_sizes (fst (snd (save_worker_run post n q))) = []"
  by (induction n) (auto simp: save_worker_iter_idle split: prod.splits)

lemma save_worker_run_step:
  assumes "\<forall>items. save_workload post items = None"
    and "list_all printable (output_queue q)"
    and "output_queue q \<noteq> []"
  shows "sink_sizes (fst (snd (save_worker_run post (Suc n) q)))
           = min (length (output_queue q)) 100
             # sink_sizes (fst (snd (save_worker_run post n (fst (save_worker_iter post q)))))"
proof -
  obtain q' es r where it: "save_worker_iter post q = (q', es, r)"
    by (metis prod_cases3)
  with save_worker_iter_ok [OF assms]
  have "sink_sizes es = [min (length (output_queue q)) 100]" and "r = None"
    by simp_all
  with it show ?thesis
    by (auto simp: sink_sizes_append split: prod.splits)
qed

lemma save_worker_run_cap:
  "list_all (\<lambda>n. n \<le> 100) (sink_sizes (fst (snd (save_worker_run post fuel q))))"
proof (induction fuel arbitrary: q)
  case 0
  show ?case by simp
next
  case (Suc fuel)
  obtain q' es r where it: "save_worker_iter post q = (q', es, r)"
    by (metis prod_cases3)
  have es: "list_all (\<lambda>n. n \<le> 100) (sink_sizes es)"
    using save_worker_iter_sizes [of post q] it by auto
  show ?case
  proof (cases r)
    case None
    obtain q'' es' r' where run: "save_worker_run post fuel q' = (q'', es', r')"
      by (metis prod_cases3)
    with Suc.IH [of q'] have "list_all (\<lambda>n. n \<le> 100) (sink_sizes es')"
      by simp
    with es it None run show ?thesis
      by (simp add: sink_sizes_append)
  next
    case (Some e)
    with es it show ?thesis by simp
  qed
qed

lemma save_worker_run_250:
  assumes ok: "\<forall>items. save_workload post items = None"
    and pr: "list_all printable (output_queue q)"
    and len: "length (output_queue q) = 250"
    and fuel: "3 \<le> fuel"
  shows "sink_sizes (fst (snd (save_worker_run post fuel q))) = [100, 100, 50]"
proof -
  obtain m where m: "fuel = Suc (Suc (Suc m))"
    using fuel by (metis Suc_le_D numeral_3_eq_3 Suc_le_mono)
  let ?q1 = "fst (save_worker_iter post q)"
  let ?q2 = "fst (save_worker_iter post ?q1)"
  let ?q3 = "fst (save_worker_iter post ?q2)"
  have drop_pr: "\<And>k xs. list_all printable xs \<Longrightarrow> list_all printable (drop k xs)"
    by (auto simp: list_all_iff dest: in_set_dropD)
  have q1: "output_queue ?q1 = drop 100 (output_queue q)"
    using len by (simp add: save_worker_iter_queue)
  have l1: "length (output_queue ?q1) = 150" using q1 len by simp
  have p1: "list_all printable (output_queue ?q1)" using q1 pr drop_pr by simp
  have q2: "output_queue ?q2 = drop 100 (output_queue ?q1)"
    using l1 by (simp add: save_worker_iter_queue)
  have l2: "length (output_queue ?q2) = 50" using q2 l1 by simp
  have p2: "list_all printable (output_queue ?q2)" using q2 p1 drop_pr by simp
  have q3: "output_queue ?q3 = []"
    using l2 by (simp add: save_worker_iter_queue)
  have n0: "output_queue q \<noteq> []" using len by auto
  have n1: "output_queue ?q1 \<noteq> []" using l1 by auto
  have n2: "output_queue ?q2 \<noteq> []" using l2 by auto
  show ?thesis
    unfolding m
    by (simp only: save_worker_run_step [OF ok pr n0] save_worker_run_step [OF ok p1 n1]
          save_worker_run_step [OF ok p2 n2] save_worker_run_idle [OF q3] len l1 l2)
       simp
qed

lemma save_worker_iter_call:
  assumes "output_queue q \<noteq> []"
    and "list_all printable (take (min (length (output_queue q)) 100) (output_queue q))"
  shows "(\<exists>rest. fst (snd (save_worker_iter post q))
            = Save_workload (take (min (length (output_queue q)) 100) (output_queue q)) # rest \<and>
            sink_sizes rest = []) \<and>
         sink_sizes (fst (snd (save_worker_iter post q))) = [min (length (output_queue q)) 100]"
  using assms by (auto simp: save_worker_iter_def Let_def split: option.splits)

lemma save_worker_run_raise:
  assumes "snd (snd (save_worker_iter post q)) = Some e"
  shows "save_worker_run post (Suc n) q = save_worker_iter post q"
proof -
  obtain q' es where "save_worker_iter post q = (q', es, Some e)"
    using assms by (metis prod.collapse)
  then show ?thesis by simp
qed

text \<open>
  C6, as the claim states it, fails when a call of the sink raises: the exception ends
  the batcher's task. With 250 items on the queue and a sink that cannot be reached, the
  loop makes one call of 100 items and stops; 150 items stay on the queue.
\<close>

theorem failing_sink_counterexample:
  "length (output_queue \<lparr>input_queue = [],
        output_queue = replicate 250 \<lparr>contract_hash = ''0xc'', token_id = ''1'',
          token_uri = ''http://a.b/1'', response_code = Some 200, metadata = Some ''{}''\<rparr>\<rparr>) = 250 \<and>
   save_worker_run (\<lambda>d. Inl ClientConnectorError) (Suc (Suc (Suc 0)))
     \<lparr>input_queue = [],
      output_queue = replicate 250 \<lparr>contract_hash = ''0xc'', token_id = ''1'',
        token_uri = ''http://a.b/1'', response_code = Some 200, metadata = Some ''{}''\<rparr>\<rparr>
   = (\<lparr>input_queue = [],
       output_queue = replicate 150 \<lparr>contract_hash = ''0xc'', token_id = ''1'',
         token_uri = ''http://a.b/1'', response_code = Some 200, metadata = Some ''{}''\<rparr>\<rparr>,
      [Save_workload (replicate 100 \<lparr>contract_hash = ''0xc'', token_id = ''1'',
         token_uri = ''http://a.b/1'', response_code = Some 200, metadata = Some ''{}''\<rparr>)],
      Some ClientConnectorError) \<and>
   sink_sizes (fst (snd (save_worker_run (\<lambda>d. Inl ClientConnectorError) (Suc (Suc (Suc 0)))
     \<lparr>input_queue = [],
      output_queue = replicate 250 \<lparr>contract_hash = ''0xc'', token_id = ''1'',
        token_uri = ''http://a.b/1'', response_code = Some 200, metadata = Some ''{}''\<rparr>\<rparr>)))
   = [100]"
  by (simp add: save_worker_iter_def save_workload_def Let_def printable_def list_all_iff)

text \<open>
  C6, amended: in every turn of the batcher's loop the items taken from the output queue
  are its first \<open>min(depth, 100)\<close> items. At depth 0 the turn makes no call of the sink
  and sleeps. At any other depth, when the items taken all have their code and their
  payload set, the turn makes exactly one call of the sink, with exactly these items; so
  no call of the sink, in any run of the loop, holds more than 100 items. With 250 items
  on the queue, all with code and payload set, no other task adding to it and a sink
  whose calls return without raising, the loop makes exactly three calls of the sink, of
  100, 100 and 50 items. A turn that ends with an exception, such as the one of a call
  of the sink that raises, ends the loop: no later call is made.
\<close>

theorem save_worker_batch_cap:
  "output_queue (fst (save_worker_iter post q))
     = drop (min (length (output_queue q)) 100) (output_queue q) \<and>
   (sink_sizes (fst (snd (save_worker_iter post q))) = [] \<or>
    sink_sizes (fst (snd (save_worker_iter post q))) = [min (length (output_queue q)) 100]) \<and>
   list_all (\<lambda>n. n \<le> 100) (sink_sizes (fst (snd (save_worker_run post fuel q)))) \<and>
   ((\<forall>items. save_workload post items = None) \<and> list_all printable (output_queue q) \<and>
    length (output_queue q) = 250 \<and> 3 \<le> fuel \<longrightarrow>
      sink_sizes (fst (snd (save_worker_run post fuel q))) = [100, 100, 50]) \<and>
   (output_queue q = [] \<longrightarrow> save_worker_iter post q = (q, [Sleep 5], None)) \<and>
   (output_queue q \<noteq> [] \<and>
    list_all printable (take (min (length (output_queue q)) 100) (output_queue q)) \<longrightarrow>
      (\<exists>rest. fst (snd (save_worker_iter post q))
         = Save_workload (take (min (length (output_queue q)) 100) (output_queue q)) # rest \<and>
         sink_sizes rest = []) \<and>
      sink_sizes (fst (snd (save_worker_iter post q))) = [min (length (output_queue q)) 100]) \<and>
   (snd (snd (save_worker_iter post q)) = Some e \<longrightarrow>
      save_worker_run post (Suc n) q = save_worker_iter post q)"
  using save_worker_iter_queue [of post q] save_worker_iter_sizes [of post q]
    save_worker_run_cap [of post fuel q] save_worker_run_250 [of post q fuel]
    save_worker_iter_idle [of q post] save_worker_iter_call [of q post]
    save_worker_run_raise [of post q e n]
  by blast

theorem save_worker_batch_cap_witness:
  "(\<forall>items. save_workload (\<lambda>d. Inr \<lparr>status = 200, json = Inr ''{}''\<rparr>) items = None) \<and>
   list_all printable
     (output_queue \<lparr>input_queue = [],
        output_queue = replicate 250 \<lparr>contract_hash = ''0xc'', token_id = ''1'',
          token_uri = ''http://a.b/1'', response_code = Some 200, metadata = Some ''{}''\<rparr>\<rparr>) \<and>
   length
     (output_queue \<lparr>input_queue = [],
        output_queue = replicate 250 \<lparr>contract_hash = ''0xc'', token_id = ''1'',
          token_uri = ''http://a.b/1'', response_code = Some 200, metadata = Some ''{}''\<rparr>\<rparr>) = 250 \<and>
   (3::nat) \<le> 4 \<and>
   sink_sizes (fst (snd (save_worker_run (\<lambda>d. Inr \<lparr>status = 200, json = Inr ''{}''\<rparr>) 4
     \<lparr>input_queue = [],
      output_queue = replicate 250 \<lparr>contract_hash = ''0xc'', token_id = ''1'',
        token_uri = ''http://a.b/1'', response_code = Some 200, metadata = Some ''{}''\<rparr>\<rparr>)))
   = [100, 100, 50] \<and>
   save_worker_iter (\<lambda>d. Inr \<lparr>status = 200, json = Inr ''{}''\<rparr>)
     \<lparr>input_queue = [], output_queue = []\<rparr>
   = (\<lparr>input_queue = [], output_queue = []\<rparr>, [Sleep 5], None) \<and>
   sink_sizes (fst (snd (save_worker_iter (\<lambda>d. Inr \<lparr>status = 200, json = Inr ''{}''\<rparr>)
     \<lparr>input_queue = [],
      output_queue = replicate 250 \<lparr>contract_hash = ''0xc'', token_id = ''1'',
        token_uri = ''http://a.b/1'', response_code = Some 200, metadata = Some ''{}''\<rparr>\<rparr>)))
   = [100] \<and>
   snd (snd (save_worker_iter (\<lambda>d. Inl ClientConnectorError)
     \<lparr>input_queue = [],
      output_queue = replicate 250 \<lparr>contract_hash = ''0xc'', token_id = ''1'',
        token_uri = ''http://a.b/1'', response_code = Some 200, metadata = Some ''{}''\<rparr>\<rparr>))
   = Some ClientConnectorError \<and>
   save_worker_run (\<lambda>d. Inl ClientConnectorError) (Suc 2)
     \<lparr>input_queue = [],
      output_queue = replicate 250 \<lparr>contract_hash = ''0xc'', token_id = ''1'',
        token_uri = ''http://a.b/1'', response_code = Some 200, metadata = Some ''{}''\<rparr>\<rparr>
   = save_worker_iter (\<lambda>d. Inl ClientConnectorError)
     \<lparr>input_queue = [],
      output_queue = replicate 250 \<lparr>contract_hash = ''0xc'', token_id = ''1'',
        token_uri = ''http://a.b/1'', response_code = Some 200, metadata = Some ''{}''\<rparr>\<rparr>"
proof -
  let ?post = "(\<lambda>d. Inr \<lparr>status = 200, json = Inr ''{}''\<rparr>) :: sink"
  let ?down = "(\<lambda>d. Inl ClientConnectorError) :: sink"
  let ?q = "\<lparr>input_queue = [],
      output_queue = replicate 250 \<lparr>contract_hash = ''0xc'', token_id = ''1'',
        token_uri = ''http://a.b/1'', response_code = Some 200, metadata = Some ''{}''\<rparr>\<rparr>"
  let ?idle = "\<lparr>input_queue = [], output_queue = []\<rparr> :: queues"
  have a: "\<forall>items. save_workload ?post items = None"
    by (simp add: save_workload_def)
  have b: "list_all printable (output_queue ?q)"
    by (simp add: list_all_iff printable_def)
  have c: "length (output_queue ?q) = 250" by simp
  have d: "(3::nat) \<le> 4" by simp
  have r: "sink_sizes (fst (snd (save_worker_run ?post 4 ?q))) = [100, 100, 50]"
    using save_worker_batch_cap [of ?post ?q 4] a b c d by blast
  have e0: "output_queue ?idle = []" by simp
  have r0: "save_worker_iter ?post ?idle = (?idle, [Sleep 5], None)"
    using save_worker_batch_cap [of ?post ?idle] e0 by blast
  have n1: "output_queue ?q \<noteq> []" by simp
  have p1: "list_all printable (take (min (length (output_queue ?q)) 100) (output_queue ?q))"
    by (simp add: list_all_iff printable_def)
  have "sink_sizes (fst (snd (save_worker_iter ?post ?q))) = [min (length (output_queue ?q)) 100]"
    using save_worker_batch_cap [of ?post ?q] n1 p1 by blast
  then have r1: "sink_sizes (fst (snd (save_worker_iter ?post ?q))) = [100]"
    by simp
  have x: "snd (snd (save_worker_iter ?down ?q)) = Some ClientConnectorError"
    by (simp add: save_worker_iter_def save_workload_def Let_def printable_def list_all_iff)
  have r2: "save_worker_run ?down (Suc 2) ?q = save_worker_iter ?down ?q"
    using save_worker_batch_cap [of ?down ?q _ ClientConnectorError 2] x by blast
  show ?thesis using a b c d r r0 r1 x r2 by blast
qed

section \<open>Properties of replace_ipfs_gateway\<close>

lemma match_at_iff:
  "match_at s = (\<exists>seg rest. s = CHR ''/'' # seg @ rest \<and> cid_shape seg \<and> sep_or_end rest)"
proof
  assume m: "match_at s"
  then obtain r where s: "s = CHR ''/'' # r"
    and alt: "segment_at is_alnum 46 r \<or> segment_at is_lower_alnum 59 r"
    by (auto simp: match_at_def split: list.splits)
  from alt obtain n where n: "n \<le> length r" "cid_shape (take n r)" "sep_or_end (drop n r)"
    by (auto simp: segment_at_def cid_shape_def)
  have "s = CHR ''/'' # take n r @ drop n r" using s by simp
  with n show "\<exists>seg rest. s = CHR ''/'' # seg @ rest \<and> cid_shape seg \<and> sep_or_end rest"
    by blast
next
  assume "\<exists>seg rest. s = CHR ''/'' # seg @ rest \<and> cid_shape seg \<and> sep_or_end rest"
  then obtain seg rest where "s = CHR ''/'' # seg @ rest" "cid_shape seg" "sep_or_end rest"
    by blast
  then show "match_at s"
    by (auto simp: match_at_def segment_at_def cid_shape_def)
qed

lemma re_search_Some_iff:
  "(re_search s = Some i)
     = (i < length s \<and> match_at (drop i s) \<and> (\<forall>j<i. \<not> match_at (drop j s)))"
proof (induction s arbitrary: i)
  case Nil
  show ?case by simp
next
  case (Cons c cs)
  show ?case
  proof (cases "match_at (c # cs)")
    case True
    then show ?thesis by (cases i) (auto intro: exI [of _ 0])
  next
    case False
    show ?thesis
    proof (cases i)
      case 0
      with False show ?thesis by simp
    next
      case (Suc k)
      have "(\<forall>j<Suc k. \<not> match_at (drop j (c # cs))) = (\<forall>j<k. \<not> match_at (drop j cs))"
        using False by (auto simp: less_Suc_eq_0_disj)
      with False Suc Cons.IH [of k] show ?thesis by auto
    qed
  qed
qed

lemma re_search_None_iff: "(re_search s = None) = (\<forall>j. \<not> match_at (drop j s))"
proof (induction s)
  case Nil
  show ?case by (simp add: match_at_def)
next
  case (Cons c cs)
  have "(\<forall>j. \<not> match_at (drop j (c # cs)))
          = (\<not> match_at (c # cs) \<and> (\<forall>j. \<not> match_at (drop j cs)))"
  proof
    assume a: "\<forall>j. \<not> match_at (drop j (c # cs))"
    have "\<not> match_at (c # cs)" using a [rule_format, of 0] by simp
    moreover have "\<forall>j. \<not> match_at (drop j cs)"
    proof
      fix j show "\<not> match_at (drop j cs)" using a [rule_format, of "Suc j"] by simp
    qed
    ultimately show "\<not> match_at (c # cs) \<and> (\<forall>j. \<not> match_at (drop j cs))" by simp
  next
    assume a: "\<not> match_at (c # cs) \<and> (\<forall>j. \<not> match_at (drop j cs))"
    show "\<forall>j. \<not> match_at (drop j (c # cs))"
    proof
      fix j show "\<not> match_at (drop j (c # cs))" using a by (cases j) simp_all
    qed
  qed
  with Cons.IH show ?case by simp
qed

lemma has_segment_iff_search:
  "(\<exists>pre seg rest. uri = pre @ CHR ''/'' # seg @ rest \<and> cid_shape seg \<and> sep_or_end rest)
     = (re_search uri \<noteq> None)"
proof
  assume "\<exists>pre seg rest. uri = pre @ CHR ''/'' # seg @ rest \<and> cid_shape seg \<and> sep_or_end rest"
  then obtain pre seg rest
    where u: "uri = pre @ CHR ''/'' # seg @ rest" and sh: "cid_shape seg" "sep_or_end rest"
    by blast
  have "drop (length pre) uri = CHR ''/'' # seg @ rest" using u by simp
  with sh have "match_at (drop (length pre) uri)" using match_at_iff by blast
  then show "re_search uri \<noteq> None" using re_search_None_iff by blast
next
  assume "re_search uri \<noteq> None"
  then obtain i where "re_search uri = Some i" by blast
  then have m: "match_at (drop i uri)" using re_search_Some_iff by blast
  then obtain seg rest
    where d: "drop i uri = CHR ''/'' # seg @ rest" and sh: "cid_shape seg" "sep_or_end rest"
    using match_at_iff by blast
  have "uri = take i uri @ CHR ''/'' # seg @ rest" using d by (metis append_take_drop_id)
  with sh show "\<exists>pre seg rest. uri = pre @ CHR ''/'' # seg @ rest \<and> cid_shape seg \<and> sep_or_end rest"
    by blast
qed

lemma replace_leftmost:
  assumes u: "uri = pre @ CHR ''/'' # seg @ rest"
    and sh: "cid_shape seg" "sep_or_end rest"
    and left: "list_all (\<lambda>j. \<not> match_at (drop j uri)) [0..<length pre]"
  shows "replace_ipfs_gateway gw uri = gw @ CHR ''/'' # seg @ rest"
proof -
  have d: "drop (length pre) uri = CHR ''/'' # seg @ rest" using u by simp
  with sh have "match_at (drop (length pre) uri)" using match_at_iff by blast
  moreover have "length pre < length uri" using u by simp
  moreover have "\<forall>j<length pre. \<not> match_at (drop j uri)"
    using left by (simp add: list_all_iff)
  ultimately have "re_search uri = Some (length pre)"
    using re_search_Some_iff by blast
  with d show ?thesis by (simp add: replace_ipfs_gateway_def)
qed

lemma replace_some_segment:
  assumes "re_search uri \<noteq> None"
  shows "\<exists>pre seg rest. uri = pre @ CHR ''/'' # seg @ rest \<and> cid_shape seg \<and> sep_or_end rest \<and>
           list_all (\<lambda>j. \<not> match_at (drop j uri)) [0..<length pre] \<and>
           replace_ipfs_gateway gw uri = gw @ CHR ''/'' # seg @ rest"
proof -
  from assms obtain i where i: "re_search uri = Some i" by blast
  then have m: "match_at (drop i uri)" and len: "i < length uri"
    and left: "\<forall>j<i. \<not> match_at (drop j uri)"
    using re_search_Some_iff by blast+
  from m obtain seg rest
    where d: "drop i uri = CHR ''/'' # seg @ rest" and sh: "cid_shape seg" "sep_or_end rest"
    using match_at_iff by blast
  have u: "uri = take i uri @ CHR ''/'' # seg @ rest" using d by (metis append_take_drop_id)
  have "length (take i uri) = i" using len by simp
  with left have l: "list_all (\<lambda>j. \<not> match_at (drop j uri)) [0..<length (take i uri)]"
    by (simp add: list_all_iff)
  have "replace_ipfs_gateway gw uri = gw @ CHR ''/'' # seg @ rest"
    using i d by (simp add: replace_ipfs_gateway_def)
  with u sh l show ?thesis by blast
qed

lemma sep_or_end_cases:
  "sep_or_end rest = (rest = [] \<or> (\<exists>cs. rest = CHR ''/'' # cs) \<or> rest = [CHR ''\<newline>''])"
  by (cases rest) (auto simp: sep_or_end_def)

text \<open>
  C3, as the claim states it, fails on its own example: the rewritten URI starts at the
  slash before the segment, so with the gateway \<open>https://gw/ipfs/\<close> the result has two
  slashes after \<open>ipfs\<close>.
\<close>

theorem gateway_example_counterexample:
  "replace_ipfs_gateway ''https://gw/ipfs/''
     ''https://example.com/ipfs/QmYwAPJzv5CZsnA625s3Xf2nemtYgPpHdWEz79ojWnPbdG/meta.json''
   = ''https://gw/ipfs//QmYwAPJzv5CZsnA625s3Xf2nemtYgPpHdWEz79ojWnPbdG/meta.json'' \<and>
   replace_ipfs_gateway ''https://gw/ipfs/''
     ''https://example.com/ipfs/QmYwAPJzv5CZsnA625s3Xf2nemtYgPpHdWEz79ojWnPbdG/meta.json''
   \<noteq> ''https://gw/ipfs/QmYwAPJzv5CZsnA625s3Xf2nemtYgPpHdWEz79ojWnPbdG/meta.json''"
  by code_simp

text \<open>
  C3, amended: a segment is 46 alphanumeric characters, or 59 lower-case alphanumeric
  characters, that stand right after a slash and right before one of three things: a
  slash, the end of the URI, or a newline that is the last character of the URI. For
  every URI that contains a segment, \<open>replace_ipfs_gateway\<close> returns the gateway prefix
  followed by the URI from the slash before the leftmost segment (the pattern matches at
  no earlier position) to its end; for every URI with no segment it returns the URI
  unchanged. The input \<open>https://example.com/ipfs/Qm...(46 characters)/meta.json\<close> with
  the gateway \<open>https://gw/ipfs\<close> is rewritten to
  \<open>https://gw/ipfs/Qm...(46 characters)/meta.json\<close>.
\<close>

theorem replace_ipfs_gateway_rewrite:
  "(uri = pre @ CHR ''/'' # seg @ rest \<and> cid_shape seg \<and> sep_or_end rest \<and>
    list_all (\<lambda>j. \<not> match_at (drop j uri)) [0..<length pre] \<longrightarrow>
      replace_ipfs_gateway gw uri = gw @ CHR ''/'' # seg @ rest) \<and>
   ((\<exists>pre seg rest. uri = pre @ CHR ''/'' # seg @ rest \<and> cid_shape seg \<and> sep_or_end rest) \<longrightarrow>
      (\<exists>pre seg rest. uri = pre @ CHR ''/'' # seg @ rest \<and> cid_shape seg \<and> sep_or_end rest \<and>
         list_all (\<lambda>j. \<not> match_at (drop j uri)) [0..<length pre] \<and>
         replace_ipfs_gateway gw uri = gw @ CHR ''/'' # seg @ rest)) \<and>
   (\<not> (\<exists>pre seg rest. uri = pre @ CHR ''/'' # seg @ rest \<and> cid_shape seg \<and> sep_or_end rest) \<longrightarrow>
      replace_ipfs_gateway gw uri = uri) \<and>
   sep_or_end r = (r = [] \<or> (\<exists>cs. r = CHR ''/'' # cs) \<or> r = [CHR ''\<newline>'']) \<and>
   match_at s = (\<exists>seg rest. s = CHR ''/'' # seg @ rest \<and> cid_shape seg \<and> sep_or_end rest)"
proof (intro conjI impI)
  assume "uri = pre @ CHR ''/'' # seg @ rest \<and> cid_shape seg \<and> sep_or_end rest \<and>
    list_all (\<lambda>j. \<not> match_at (drop j uri)) [0..<length pre]"
  then show "replace_ipfs_gateway gw uri = gw @ CHR ''/'' # seg @ rest"
    using replace_leftmost by blast
next
  assume "\<exists>pre seg rest. uri = pre @ CHR ''/'' # seg @ rest \<and> cid_shape seg \<and> sep_or_end rest"
  then have "re_search uri \<noteq> None" using has_segment_iff_search by blast
  then show "\<exists>pre seg rest. uri = pre @ CHR ''/'' # seg @ rest \<and> cid_shape seg \<and> sep_or_end rest \<and>
         list_all (\<lambda>j. \<not> match_at (drop j uri)) [0..<length pre] \<and>
         replace_ipfs_gateway gw uri = gw @ CHR ''/'' # seg @ rest"
    by (rule replace_some_segment)
next
  assume "\<not> (\<exists>pre seg rest. uri = pre @ CHR ''/'' # seg @ rest \<and> cid_shape seg \<and> sep_or_end rest)"
  then have "re_search uri = None" using has_segment_iff_search [of uri] by blast
  then show "replace_ipfs_gateway gw uri = uri" by (simp add: replace_ipfs_gateway_def)
next
  show "sep_or_end r = (r = [] \<or> (\<exists>cs. r = CHR ''/'' # cs) \<or> r = [CHR ''\<newline>''])"
    by (rule sep_or_end_cases)
next
  show "match_at s = (\<exists>seg rest. s = CHR ''/'' # seg @ rest \<and> cid_shape seg \<and> sep_or_end rest)"
    by (rule match_at_iff)
qed

theorem replace_ipfs_gateway_rewrite_witness:
  "cid_shape ''QmYwAPJzv5CZsnA625s3Xf2nemtYgPpHdWEz79ojWnPbdG'' \<and>
   sep_or_end ''/meta.json'' \<and>
   list_all (\<lambda>j. \<not> match_at (drop j
       ''https://example.com/ipfs/QmYwAPJzv5CZsnA625s3Xf2nemtYgPpHdWEz79ojWnPbdG/meta.json''))
     [0..<length ''https://example.com/ipfs''] \<and>
   replace_ipfs_gateway ''https://gw/ipfs''
     ''https://example.com/ipfs/QmYwAPJzv5CZsnA625s3Xf2nemtYgPpHdWEz79ojWnPbdG/meta.json''
   = ''https://gw/ipfs/QmYwAPJzv5CZsnA625s3Xf2nemtYgPpHdWEz79ojWnPbdG/meta.json'' \<and>
   \<not> (\<exists>pre seg rest. ''https://example.com/meta.json'' = pre @ CHR ''/'' # seg @ rest \<and>
        cid_shape seg \<and> sep_or_end rest) \<and>
   replace_ipfs_gateway ''https://gw/ipfs'' ''https://example.com/meta.json''
   = ''https://example.com/meta.json'' \<and>
   sep_or_end [CHR ''\<newline>''] \<and>
   list_all (\<lambda>j. \<not> match_at (drop j
       (''https://example.com/ipfs/QmYwAPJzv5CZsnA625s3Xf2nemtYgPpHdWEz79ojWnPbdG''
          @ [CHR ''\<newline>''])))
     [0..<length ''https://example.com/ipfs''] \<and>
   replace_ipfs_gateway ''https://gw/ipfs''
     (''https://example.com/ipfs/QmYwAPJzv5CZsnA625s3Xf2nemtYgPpHdWEz79ojWnPbdG''
        @ [CHR ''\<newline>''])
   = ''https://gw/ipfs/QmYwAPJzv5CZsnA625s3Xf2nemtYgPpHdWEz79ojWnPbdG'' @ [CHR ''\<newline>'']"
proof -
  let ?pre = "''https://example.com/ipfs''"
  let ?seg = "''QmYwAPJzv5CZsnA625s3Xf2nemtYgPpHdWEz79ojWnPbdG''"
  let ?rest = "''/meta.json''"
  let ?uri = "''https://example.com/ipfs/QmYwAPJzv5CZsnA625s3Xf2nemtYgPpHdWEz79ojWnPbdG/meta.json''"
  let ?gw = "''https://gw/ipfs''"
  let ?plain = "''https://example.com/meta.json''"
  let ?nl = "[CHR ''\<newline>'']"
  let ?line = "''https://example.com/ipfs/QmYwAPJzv5CZsnA625s3Xf2nemtYgPpHdWEz79ojWnPbdG'' @ ?nl"
  have u: "?uri = ?pre @ CHR ''/'' # ?seg @ ?rest" by simp
  have a: "cid_shape ?seg" by code_simp
  have b: "sep_or_end ?rest" by code_simp
  have c: "list_all (\<lambda>j. \<not> match_at (drop j ?uri)) [0..<length ?pre]" by code_simp
  have r1: "replace_ipfs_gateway ?gw ?uri = ?gw @ CHR ''/'' # ?seg @ ?rest"
    using replace_ipfs_gateway_rewrite [of ?uri ?pre ?seg ?rest ?gw] u a b c by blast
  have r1': "replace_ipfs_gateway ?gw ?uri
               = ''https://gw/ipfs/QmYwAPJzv5CZsnA625s3Xf2nemtYgPpHdWEz79ojWnPbdG/meta.json''"
    using r1 by simp
  have "re_search ?plain = None" by code_simp
  then have n: "\<not> (\<exists>pre seg rest. ?plain = pre @ CHR ''/'' # seg @ rest \<and>
        cid_shape seg \<and> sep_or_end rest)"
    using has_segment_iff_search [of ?plain] by blast
  have r2: "replace_ipfs_gateway ?gw ?plain = ?plain"
    using replace_ipfs_gateway_rewrite [of ?plain _ _ _ ?gw] n by blast
  have ul: "?line = ?pre @ CHR ''/'' # ?seg @ ?nl" by simp
  have bl: "sep_or_end ?nl" by code_simp
  have cl: "list_all (\<lambda>j. \<not> match_at (drop j ?line)) [0..<length ?pre]" by code_simp
  have r3: "replace_ipfs_gateway ?gw ?line = ?gw @ CHR ''/'' # ?seg @ ?nl"
    using replace_ipfs_gateway_rewrite [of ?line ?pre ?seg ?nl ?gw] ul a bl cl by blast
  have r3': "replace_ipfs_gateway ?gw ?line
               = ''https://gw/ipfs/QmYwAPJzv5CZsnA625s3Xf2nemtYgPpHdWEz79ojWnPbdG'' @ ?nl"
    using r3 by simp
  show ?thesis using a b c r1' n r2 bl cl r3' by blast
qed

end
